theory Spec2Isabelle
  imports Main "HOL-Library.Char_ord" "HOL-Library.List_Lexorder" "HOL-Library.Multiset"
begin

section \<open>A model of the Service Workbench API client (src/swb.js)\<close>

text \<open>
  The client is one JavaScript class, \<^verbatim>\<open>SWB\<close>. Each public method builds a request,
  hands it to \<^verbatim>\<open>fetch\<close> and settles a promise from the reply. The model makes three
  things explicit that the JavaScript leaves implicit:
  \<^item> the values that flow through the client are a datatype \<open>jsval\<close>;
  \<^item> the remote service is a parameter (a transport function with its own state), and
    every request handed to \<^verbatim>\<open>fetch\<close> is appended to a log;
  \<^item> the fate of the promise a method returns is a value of type \<open>outcome\<close>.
\<close>

subsection \<open>JavaScript values\<close>

text \<open>
  \<^verbatim>\<open>User\<close> follows the JSDoc typedef of the source. The ten properties that the client
  copies into an update payload form the base record; the remaining ten extend it.
  The property \<^verbatim>\<open>rev\<close> is named \<open>rev'\<close> and \<^verbatim>\<open>username\<close> is named \<open>username'\<close>
  (both names are taken). Strings are lists of 8-bit characters: a character stands for
  the UTF-16 code unit of the same number.
\<close>

record updatable =
  applyReason :: string
  email :: string
  firstName :: string
  isAdmin :: bool
  isExternalUser :: bool
  lastName :: string
  projectId :: "string list"
  rev' :: int
  status :: string
  userRole :: string

record user = updatable +
  authenticationProviderId :: string
  createdAt :: string
  createdBy :: string
  encryptedCreds :: string
  identityProviderName :: string
  ns :: string
  uid :: string
  updatedAt :: string
  username' :: string
  usernameInIdp :: string

text \<open>
  \<open>UserV u\<close> is an object of the shape \<^verbatim>\<open>User\<close>; \<open>UpdateV u2\<close> is the object
  literal \<^verbatim>\<open>u2\<close> of the two user-update methods. \<open>Obj\<close> is any other plain object
  (its properties in insertion order, each name once) and \<open>Arr\<close> an array. Objects that
  carry the user properties are always represented by \<open>UserV\<close>, never by \<open>Obj\<close>.
  \<open>Num\<close> holds the integers that a JavaScript number represents exactly and prints
  in full (magnitude at most \<open>2 ^ 53\<close>); other numbers are outside the model.
  \<open>ResponseV st b\<close> is the \<^verbatim>\<open>Response\<close> object of \<^verbatim>\<open>fetch\<close>: its status and what
  its \<^verbatim>\<open>json()\<close> yields (\<open>None\<close> when the body is not JSON).
\<close>

datatype jsval =
    Undefined
  | Null
  | Bool bool
  | Num int
  | Str string
  | Arr "jsval list"
  | Obj "(string \<times> jsval) list"
  | UserV user
  | UpdateV updatable
  | ResponseV nat "jsval option"

text \<open>What a \<^verbatim>\<open>throw\<close> or a \<^verbatim>\<open>reject\<close> carries.\<close>

datatype reason =
    Thrown jsval        \<comment> \<open>\<^verbatim>\<open>throw(v)\<close> or \<^verbatim>\<open>reject(v)\<close> with a plain value \<open>v\<close>\<close>
  | ErrorObj string     \<comment> \<open>\<^verbatim>\<open>new Error(message)\<close>\<close>
  | TypeError           \<comment> \<open>raised by the runtime: property of null, call of a non-function\<close>
  | FetchError          \<comment> \<open>\<^verbatim>\<open>fetch\<close> rejected: the request got no reply\<close>
  | SyntaxError         \<comment> \<open>\<^verbatim>\<open>response.json()\<close> rejected: the body is not JSON\<close>

text \<open>
  The fate of a call. \<open>Threw\<close>: the method raised before it returned a promise.
  \<open>Resolved\<close> and \<open>Rejected\<close>: the returned promise settled. \<open>Unsettled r\<close>: a
  promise was returned that never settles; the chain built inside the
  \<^verbatim>\<open>new Promise\<close> executor rejected with \<open>r\<close>, and no handler passes that on to
  \<^verbatim>\<open>reject\<close>.
\<close>

datatype outcome =
    Threw reason
  | Resolved jsval
  | Rejected reason
  | Unsettled reason

subsection \<open>Built-ins of the language that the client calls\<close>

text \<open>\<^verbatim>\<open>if (v)\<close>.\<close>

fun truthy :: "jsval \<Rightarrow> bool" where
  "truthy Undefined = False"
| "truthy Null = False"
| "truthy (Bool b) = b"
| "truthy (Num n) = (n \<noteq> 0)"
| "truthy (Str s) = (s \<noteq> [])"
| "truthy _ = True"

text \<open>\<^verbatim>\<open>Array.prototype.join()\<close> on strings, with the default separator.\<close>

fun join :: "string list \<Rightarrow> string" where
  "join [] = []"
| "join [x] = x"
| "join (x # y # zs) = x @ CHR '','' # join (y # zs)"

definition digit :: "nat \<Rightarrow> char" where
  "digit d = ''0123456789'' ! d"

function digits :: "nat \<Rightarrow> string" where
  "digits n = (if n < 10 then [digit n] else digits (n div 10) @ [digit (n mod 10)])"
  by pat_completeness auto
termination
  by (relation "measure (\<lambda>n. n)") auto

text \<open>
  \<^verbatim>\<open>ToString\<close>, as a template literal applies it. An array prints its elements
  separated by commas, \<^verbatim>\<open>null\<close> and \<^verbatim>\<open>undefined\<close> elements as nothing.
\<close>

fun js_string :: "jsval \<Rightarrow> string" where
  "js_string Undefined = ''undefined''"
| "js_string Null = ''null''"
| "js_string (Bool b) = (if b then ''true'' else ''false'')"
| "js_string (Num n) = (if n < 0 then CHR ''-'' # digits (nat (- n)) else digits (nat n))"
| "js_string (Str s) = s"
| "js_string (Arr xs) =
     join (map (\<lambda>x. if x = Undefined \<or> x = Null then [] else js_string x) xs)"
| "js_string (Obj kvs) = ''[object Object]''"
| "js_string (UserV u) = ''[object Object]''"
| "js_string (UpdateV u) = ''[object Object]''"
| "js_string (ResponseV st b) = ''[object Response]''"

text \<open>
  \<^verbatim>\<open>String.prototype.toLowerCase\<close> on the code units below 256: the letters A to Z
  and the Latin-1 capitals (all of 192 to 222 but the multiplication sign).
\<close>

definition lower_char :: "char \<Rightarrow> char" where
  "lower_char c =
     (let n = (of_char c :: nat)
      in if (65 \<le> n \<and> n \<le> 90) \<or> (192 \<le> n \<and> n \<le> 222 \<and> n \<noteq> 215)
         then char_of (n + 32) else c)"

definition toLowerCase :: "string \<Rightarrow> string" where
  "toLowerCase s = map lower_char s"

text \<open>
  \<^verbatim>\<open>encodeURI\<close>: letters, digits and the marks below stay; every other code unit is
  written as the percent-escaped bytes of its UTF-8 form (one byte below 128, two from
  128 to 255).
\<close>

definition uri_unescaped :: "char \<Rightarrow> bool" where
  "uri_unescaped c =
     (let n = (of_char c :: nat)
      in (65 \<le> n \<and> n \<le> 90) \<or> (97 \<le> n \<and> n \<le> 122) \<or> (48 \<le> n \<and> n \<le> 57)
         \<or> c \<in> set '';/?:@&=+$,-_.!~*'()#'')"

definition hex_digit :: "nat \<Rightarrow> char" where
  "hex_digit d = ''0123456789ABCDEF'' ! d"

definition percent :: "nat \<Rightarrow> string" where
  "percent b = [CHR ''%'', hex_digit (b div 16), hex_digit (b mod 16)]"

definition encode_char :: "char \<Rightarrow> string" where
  "encode_char c =
     (let n = (of_char c :: nat)
      in if uri_unescaped c then [c]
         else if n < 128 then percent n
         else percent (192 + n div 64) @ percent (128 + n mod 64))"

definition encodeURI :: "string \<Rightarrow> string" where
  "encodeURI s = concat (map encode_char s)"

text \<open>The own properties of the typed objects, as a property list.\<close>

definition updatable_props :: "updatable \<Rightarrow> (string \<times> jsval) list" where
  "updatable_props u =
     [(''applyReason'', Str (applyReason u)),
      (''email'', Str (email u)),
      (''firstName'', Str (firstName u)),
      (''isAdmin'', Bool (isAdmin u)),
      (''isExternalUser'', Bool (isExternalUser u)),
      (''lastName'', Str (lastName u)),
      (''projectId'', Arr (map Str (projectId u))),
      (''rev'', Num (rev' u)),
      (''status'', Str (status u)),
      (''userRole'', Str (userRole u))]"

definition user_props :: "user \<Rightarrow> (string \<times> jsval) list" where
  "user_props u =
     updatable_props (updatable.truncate u) @
     [(''authenticationProviderId'', Str (authenticationProviderId u)),
      (''createdAt'', Str (createdAt u)),
      (''createdBy'', Str (createdBy u)),
      (''encryptedCreds'', Str (encryptedCreds u)),
      (''identityProviderName'', Str (identityProviderName u)),
      (''ns'', Str (ns u)),
      (''uid'', Str (uid u)),
      (''updatedAt'', Str (updatedAt u)),
      (''username'', Str (username' u)),
      (''usernameInIdp'', Str (usernameInIdp u))]"

definition lookup :: "(string \<times> jsval) list \<Rightarrow> string \<Rightarrow> jsval" where
  "lookup kvs k = (case map_of kvs k of None \<Rightarrow> Undefined | Some v \<Rightarrow> v)"

text \<open>
  A property read \<^verbatim>\<open>v.k\<close>, for the names the client reads (none of them is
  \<^verbatim>\<open>length\<close> or an index): it raises on \<^verbatim>\<open>undefined\<close> and \<^verbatim>\<open>null\<close> and
  yields \<^verbatim>\<open>undefined\<close> where the property is missing.
\<close>

fun get_prop :: "jsval \<Rightarrow> string \<Rightarrow> reason + jsval" where
  "get_prop Undefined k = Inl TypeError"
| "get_prop Null k = Inl TypeError"
| "get_prop (Obj kvs) k = Inr (lookup kvs k)"
| "get_prop (UserV u) k = Inr (lookup (user_props u) k)"
| "get_prop (UpdateV u) k = Inr (lookup (updatable_props u) k)"
| "get_prop _ k = Inr Undefined"

text \<open>\<^verbatim>\<open>v.hasOwnProperty(k)\<close>, for a name that is neither \<^verbatim>\<open>length\<close> nor an index.\<close>

fun hasOwnProperty :: "jsval \<Rightarrow> string \<Rightarrow> reason + bool" where
  "hasOwnProperty Undefined k = Inl TypeError"
| "hasOwnProperty Null k = Inl TypeError"
| "hasOwnProperty (Obj kvs) k = Inr (k \<in> fst ` set kvs)"
| "hasOwnProperty (UserV u) k = Inr (k \<in> fst ` set (user_props u))"
| "hasOwnProperty (UpdateV u) k = Inr (k \<in> fst ` set (updatable_props u))"
| "hasOwnProperty _ k = Inr False"

text \<open>
  \<^verbatim>\<open>xs.find(p)\<close> on the elements of an array: the first element the predicate accepts,
  \<^verbatim>\<open>undefined\<close> if there is none; an exception of the predicate ends the search.
\<close>

fun find_elem :: "(jsval \<Rightarrow> reason + bool) \<Rightarrow> jsval list \<Rightarrow> reason + jsval" where
  "find_elem p [] = Inr Undefined"
| "find_elem p (x # xs) =
     (case p x of
        Inl e \<Rightarrow> Inl e
      | Inr True \<Rightarrow> Inr x
      | Inr False \<Rightarrow> find_elem p xs)"

text \<open>\<^verbatim>\<open>v.find(p)\<close> on any value: only an array has the method.\<close>

definition js_find :: "jsval \<Rightarrow> (jsval \<Rightarrow> reason + bool) \<Rightarrow> reason + jsval" where
  "js_find v p = (case v of Arr xs \<Rightarrow> find_elem p xs | _ \<Rightarrow> Inl TypeError)"

text \<open>The predicate \<^verbatim>\<open>x => x.k === s\<close> for a string \<open>s\<close>.\<close>

definition prop_is :: "string \<Rightarrow> string \<Rightarrow> jsval \<Rightarrow> reason + bool" where
  "prop_is k s x = (case get_prop x k of Inl e \<Rightarrow> Inl e | Inr v \<Rightarrow> Inr (v = Str s))"


text \<open>
  \<^verbatim>\<open>users.find(u => u.uid === uid)\<close>. Only a user record has the property
  \<^verbatim>\<open>uid\<close>; reading it from \<^verbatim>\<open>null\<close> or \<^verbatim>\<open>undefined\<close> raises; on a value
  that is not an array the call of \<^verbatim>\<open>find\<close> raises.
\<close>

fun find_uid :: "string \<Rightarrow> jsval list \<Rightarrow> reason + user option" where
  "find_uid x [] = Inr None"
| "find_uid x (Undefined # vs) = Inl TypeError"
| "find_uid x (Null # vs) = Inl TypeError"
| "find_uid x (UserV u # vs) = (if uid u = x then Inr (Some u) else find_uid x vs)"
| "find_uid x (v # vs) = find_uid x vs"

definition find_by_uid :: "jsval \<Rightarrow> string \<Rightarrow> reason + user option" where
  "find_by_uid users x = (case users of Arr vs \<Rightarrow> find_uid x vs | _ \<Rightarrow> Inl TypeError)"

text \<open>
  \<^verbatim>\<open>users.find(u => (u.email == email && u.identityProviderName == idpName))\<close>.
  The two properties of a user record are strings, where \<^verbatim>\<open>==\<close> is equality of
  strings; any other object lacks them.
\<close>

fun find_email_idp :: "string \<Rightarrow> string \<Rightarrow> jsval list \<Rightarrow> reason + user option" where
  "find_email_idp e i [] = Inr None"
| "find_email_idp e i (Undefined # vs) = Inl TypeError"
| "find_email_idp e i (Null # vs) = Inl TypeError"
| "find_email_idp e i (UserV u # vs) =
     (if email u = e \<and> identityProviderName u = i then Inr (Some u)
      else find_email_idp e i vs)"
| "find_email_idp e i (v # vs) = find_email_idp e i vs"

definition find_by_email_idp :: "jsval \<Rightarrow> string \<Rightarrow> string \<Rightarrow> reason + user option" where
  "find_by_email_idp users e i =
     (case users of Arr vs \<Rightarrow> find_email_idp e i vs | _ \<Rightarrow> Inl TypeError)"

text \<open>\<^verbatim>\<open>admins.map(({uid}) => uid)\<close>.\<close>

fun map_uid :: "jsval list \<Rightarrow> reason + jsval list" where
  "map_uid [] = Inr []"
| "map_uid (v # vs) =
     (case get_prop v ''uid'' of
        Inl e \<Rightarrow> Inl e
      | Inr x \<Rightarrow> (case map_uid vs of Inl e \<Rightarrow> Inl e | Inr xs \<Rightarrow> Inr (x # xs)))"

definition js_map_uid :: "jsval \<Rightarrow> reason + jsval" where
  "js_map_uid admins =
     (case admins of
        Arr vs \<Rightarrow> (case map_uid vs of Inl e \<Rightarrow> Inl e | Inr xs \<Rightarrow> Inr (Arr xs))
      | _ \<Rightarrow> Inl TypeError)"

text \<open>A parameter with a default value: \<open>None\<close> is the argument left out.\<close>

definition default :: "'a \<Rightarrow> 'a option \<Rightarrow> 'a" where
  "default d a = (case a of None \<Rightarrow> d | Some x \<Rightarrow> x)"

subsection \<open>The client object, the transport and the world around them\<close>

text \<open>
  The fields of the class. \<open>token\<close> and \<open>authProviders\<close> are \<^verbatim>\<open>undefined\<close> until
  \<^verbatim>\<open>login\<close> and \<^verbatim>\<open>getIdp\<close> assign them.
\<close>

record swb =
  api :: string
  username :: string
  password :: string
  token :: jsval
  authProviders :: jsval
  authenticated :: bool
  dryrun :: bool

text \<open>\<^verbatim>\<open>new SWB(api, username, password)\<close>.\<close>

definition constructor :: "string \<Rightarrow> string \<Rightarrow> string \<Rightarrow> swb" where
  "constructor a u p =
     \<lparr>api = a, username = u, password = p, token = Undefined, authProviders = Undefined,
      authenticated = False, dryrun = False\<rparr>"

datatype verb = GET | POST | PUT

text \<open>
  A call of \<^verbatim>\<open>fetch\<close>. \<open>body\<close> is the value handed to \<^verbatim>\<open>JSON.stringify\<close>,
  \<open>None\<close> when the request has no body.
\<close>

record request =
  verb :: verb
  url :: string
  headers :: "(string \<times> jsval) list"
  body :: "jsval option"

datatype reply = NetworkFailure | Response nat "jsval option"

type_synonym 'st transport = "'st \<Rightarrow> request \<Rightarrow> reply \<times> 'st"

text \<open>
  Everything outside the client object: the state of the remote service, the requests
  sent so far, the objects of the caller that a method receives by reference, and what
  was written to the console.
\<close>

record 'st world =
  server :: 'st
  sent :: "request list"
  objects :: "nat \<rightharpoonup> (string \<times> jsval) list"
  console :: "jsval list"

definition fetch :: "'st transport \<Rightarrow> request \<Rightarrow> 'st world \<Rightarrow> reply \<times> 'st world" where
  "fetch T rq w =
     (case T (server w) rq of (rp, st) \<Rightarrow> (rp, w\<lparr>server := st, sent := sent w @ [rq]\<rparr>))"

text \<open>\<^verbatim>\<open>.then(r => r.json())\<close> on the promise of \<^verbatim>\<open>fetch\<close>.\<close>

fun json :: "reply \<Rightarrow> reason + jsval" where
  "json NetworkFailure = Inl FetchError"
| "json (Response st None) = Inl SyntaxError"
| "json (Response st (Some v)) = Inr v"

text \<open>
  \<^verbatim>\<open>.then(r => r.json()).then(p => resolve(p))\<close> inside a \<^verbatim>\<open>new Promise\<close>
  executor: a rejection of the chain reaches nobody.
\<close>

definition settle :: "reply \<Rightarrow> outcome" where
  "settle rp = (case json rp of Inl e \<Rightarrow> Unsettled e | Inr p \<Rightarrow> Resolved p)"

definition auth_headers :: "swb \<Rightarrow> (string \<times> jsval) list" where
  "auth_headers s = [(''Content-Type'', Str ''application/json''), (''Authorization'', token s)]"

definition get_request :: "swb \<Rightarrow> string \<Rightarrow> request" where
  "get_request s path = \<lparr>verb = GET, url = api s @ path, headers = auth_headers s, body = None\<rparr>"

text \<open>
  \<^verbatim>\<open>fetch(rq).then(...)\<close> as the last step of a method: the request is sent and the
  chain \<open>k\<close> of \<^verbatim>\<open>then\<close> callbacks decides the promise from the reply.
\<close>

definition send ::
  "'st transport \<Rightarrow> request \<Rightarrow> (reply \<Rightarrow> outcome) \<Rightarrow> swb \<Rightarrow> 'st world
   \<Rightarrow> outcome \<times> swb \<times> 'st world" where
  "send T rq k s w = (case fetch T rq w of (r, w1) \<Rightarrow> (k r, s, w1))"

text \<open>The read methods that fetch one address and resolve with the decoded reply.\<close>

definition fetch_json :: "'st transport \<Rightarrow> string \<Rightarrow> swb \<Rightarrow> 'st world \<Rightarrow> outcome \<times> swb \<times> 'st world" where
  "fetch_json T path s w = send T (get_request s path) settle s w"


subsection \<open>Authentication and identity providers\<close>

text \<open>
  \<^verbatim>\<open>login()\<close>. The exception for a status other than 200 is raised inside a
  \<^verbatim>\<open>then\<close> callback of the inner chain, which has no \<^verbatim>\<open>catch\<close>; the executor's
  \<^verbatim>\<open>reject\<close> is never called.
\<close>

definition login_request :: "swb \<Rightarrow> request" where
  "login_request s =
     (let body = Obj [(''username'', Str (username s)),
                      (''password'', Str (password s)),
                      (''authenticationProvider'', Str ''internal'')]
      in \<lparr>verb = POST, url = api s @ ''/api/authentication/id-tokens'',
          headers = [(''Content-Type'', Str ''application/json'')],
          body = Some body\<rparr>)"

definition login :: "'st transport \<Rightarrow> swb \<Rightarrow> 'st world \<Rightarrow> outcome \<times> swb \<times> 'st world" where
  "login T s w =
     (case fetch T (login_request s) w of
        (NetworkFailure, w1) \<Rightarrow> (Unsettled FetchError, s, w1)
      | (Response st b, w1) \<Rightarrow>
          if st \<noteq> 200 then (Unsettled (ErrorObj ''authentication failed''), s, w1)
          else (case b of
                  None \<Rightarrow> (Unsettled SyntaxError, s, w1)
                | Some auth \<Rightarrow>
                    (case get_prop auth ''idToken'' of
                       Inl e \<Rightarrow> (Unsettled e, s, w1)
                     | Inr t \<Rightarrow> fetch_json T ''/api/user'' (s\<lparr>token := t\<rparr>) w1)))"

text \<open>
  \<^verbatim>\<open>getIdp(name)\<close>, an \<^verbatim>\<open>async\<close> method: a rejection it awaits and an exception in
  the executor of the promise it returns both reject the result.
\<close>

definition find_idp :: "swb \<Rightarrow> string \<Rightarrow> outcome" where
  "find_idp s name =
     (case js_find (authProviders s) (prop_is ''id'' name) of
        Inl e \<Rightarrow> Rejected e
      | Inr idp \<Rightarrow> Resolved idp)"

definition getIdp :: "'st transport \<Rightarrow> string \<Rightarrow> swb \<Rightarrow> 'st world \<Rightarrow> outcome \<times> swb \<times> 'st world" where
  "getIdp T name s w =
     (if \<not> truthy (authProviders s) then
        (case fetch T \<lparr>verb = GET, url = api s @ ''/api/authentication/public/provider/configs'',
                       headers = [], body = None\<rparr> w of
           (response, w1) \<Rightarrow>
             (case json response of
                Inl e \<Rightarrow> (Rejected e, s, w1)
              | Inr data \<Rightarrow> (find_idp (s\<lparr>authProviders := data\<rparr>) name,
                             s\<lparr>authProviders := data\<rparr>, w1)))
      else (find_idp s name, s, w))"

subsection \<open>Users\<close>

text \<open>\<^verbatim>\<open>addFederatedUser(idp, adpUrl, email, role="researcher")\<close>.\<close>

definition addFederatedUser ::
  "'st transport \<Rightarrow> jsval \<Rightarrow> string \<Rightarrow> string \<Rightarrow> string option \<Rightarrow> swb \<Rightarrow> 'st world
   \<Rightarrow> outcome \<times> swb \<times> 'st world" where
  "addFederatedUser T idp adpUrl email' role s w =
     (case get_prop idp ''id'' of
        Inl e \<Rightarrow> (Threw e, s, w)
      | Inr idp_id \<Rightarrow>
          (let body = Obj [(''email'', Str (toLowerCase email')),
                           (''identityProviderName'', idp_id),
                           (''projectId'', Arr []),
                           (''userRole'', Str (default ''researcher'' role)),
                           (''authenticationProviderId'', Str adpUrl),
                           (''username'', Str (toLowerCase email'))]
           in if dryrun s then (Resolved body, s, w)
              else send T \<lparr>verb = POST, url = api s @ ''/api/users'',
                           headers = auth_headers s, body = Some body\<rparr> settle s w))"

text \<open>
  \<^verbatim>\<open>getUserByEmailAndIdp(email, idpName)\<close>. After \<^verbatim>\<open>reject(users)\<close> the callback
  goes on to \<^verbatim>\<open>users.find\<close>, which raises on every falsy value; the promise is
  rejected by then.
\<close>

definition getUserByEmailAndIdp ::
  "'st transport \<Rightarrow> string \<Rightarrow> string \<Rightarrow> swb \<Rightarrow> 'st world \<Rightarrow> outcome \<times> swb \<times> 'st world" where
  "getUserByEmailAndIdp T email' idpName s w =
     (case fetch T (get_request s ''/api/users'') w of
        (r, w1) \<Rightarrow>
          (case json r of
             Inl e \<Rightarrow> (Unsettled e, s, w1)
           | Inr users \<Rightarrow>
               if \<not> truthy users then (Rejected (Thrown users), s, w1)
               else (case find_by_email_idp users email' idpName of
                       Inl e \<Rightarrow> (Unsettled e, s, w1)
                     | Inr (Some u) \<Rightarrow> (Resolved (UserV u), s, w1)
                     | Inr None \<Rightarrow>
                         (Rejected (Thrown (Str (email' @ '' not found for '' @ idpName))),
                          s, w1))))"

definition put_user :: "swb \<Rightarrow> string \<Rightarrow> updatable \<Rightarrow> request" where
  "put_user s uid' u2 =
     \<lparr>verb = PUT, url = api s @ ''/api/users/'' @ uid', headers = auth_headers s,
      body = Some (UpdateV u2)\<rparr>"

text \<open>
  \<^verbatim>\<open>updateUserDetails(uid, firstname, surname, status, userRole)\<close>. The reply to the
  PUT is resolved as it is, without \<^verbatim>\<open>json()\<close>: \<^verbatim>\<open>.then(u => { resolve(u); })\<close>.
\<close>

fun resolve_response :: "reply \<Rightarrow> outcome" where
  "resolve_response NetworkFailure = Unsettled FetchError"
| "resolve_response (Response st b) = Resolved (ResponseV st b)"

definition updateUserDetails ::
  "'st transport \<Rightarrow> string \<Rightarrow> string \<Rightarrow> string \<Rightarrow> string \<Rightarrow> string \<Rightarrow> swb \<Rightarrow> 'st world
   \<Rightarrow> outcome \<times> swb \<times> 'st world" where
  "updateUserDetails T uid' firstname surname status' userRole' s w =
     (case fetch T (get_request s ''/api/users'') w of
        (r, w1) \<Rightarrow>
          (case json r of
             Inl e \<Rightarrow> (Unsettled e, s, w1)
           | Inr users \<Rightarrow>
               (case find_by_uid users uid' of
                  Inl e \<Rightarrow> (Unsettled e, s, w1)
                | Inr None \<Rightarrow>
                    (Rejected (Thrown (Str ''uid not found while adding project'')), s, w1)
                | Inr (Some u) \<Rightarrow>
                    (let u2 = \<lparr>applyReason = applyReason u,
                               email = email u,
                               firstName = firstname,
                               isAdmin = isAdmin u,
                               isExternalUser = isExternalUser u,
                               lastName = surname,
                               projectId = projectId u,
                               rev' = rev' u,
                               status = status',
                               userRole = userRole'\<rparr>
                     in if dryrun s then (Resolved (UpdateV u2), s, w1)
                        else send T (put_user s uid' u2) resolve_response s w1))))"

text \<open>
  The list that \<^verbatim>\<open>addRemoveProjectUser\<close> builds for \<^verbatim>\<open>u2.projectId\<close>:
  \<^verbatim>\<open>filter\<close> returns a new array, to which the project is pushed again for the
  action \<^verbatim>\<open>'add'\<close>.
\<close>

definition rebuilt :: "string list \<Rightarrow> string \<Rightarrow> string \<Rightarrow> string list" where
  "rebuilt ids pid action =
     (let ids2 = filter (\<lambda>id. id \<noteq> pid) ids
      in if action = ''add'' then ids2 @ [pid] else ids2)"

text \<open>
  \<^verbatim>\<open>addRemoveProjectUser(projectId, uid, action='add')\<close>. \<^verbatim>\<open>sort()\<close> sorts the
  array it is called on, in place, by code units: in the comparison
  \<^verbatim>\<open>u.projectId.sort().join() === u2.projectId.sort().join()\<close> the left call reorders
  the list of the fetched record \<open>u\<close>, the right one the new list of \<open>u2\<close>.
\<close>

definition addRemoveProjectUser ::
  "'st transport \<Rightarrow> string \<Rightarrow> string \<Rightarrow> string option \<Rightarrow> swb \<Rightarrow> 'st world
   \<Rightarrow> outcome \<times> swb \<times> 'st world" where
  "addRemoveProjectUser T pid uid' action' s w =
     (let action = default ''add'' action'
      in case fetch T (get_request s ''/api/users'') w of
        (r, w1) \<Rightarrow>
          (case json r of
             Inl e \<Rightarrow> (Unsettled e, s, w1)
           | Inr users \<Rightarrow>
               (case find_by_uid users uid' of
                  Inl e \<Rightarrow> (Unsettled e, s, w1)
                | Inr None \<Rightarrow>
                    (Rejected (Thrown (Str (''uid '' @ uid' @ '' not found while '' @ action
                                            @ '' to/from '' @ pid))), s, w1)
                | Inr (Some u0) \<Rightarrow>
                    (let u2 = \<lparr>applyReason = applyReason u0,
                               email = email u0,
                               firstName = firstName u0,
                               isAdmin = isAdmin u0,
                               isExternalUser = isExternalUser u0,
                               lastName = lastName u0,
                               projectId = projectId u0,
                               rev' = rev' u0,
                               status = status u0,
                               userRole = userRole u0\<rparr>;
                         u2 = u2\<lparr>projectId := rebuilt (projectId u2) pid action\<rparr>;
                         u = u0\<lparr>projectId := sort (projectId u0)\<rparr>;
                         u2 = u2\<lparr>projectId := sort (projectId u2)\<rparr>
                     in if join (projectId u) = join (projectId u2)
                        then (Resolved (UserV u), s, w1)
                        else if dryrun s then (Resolved (UpdateV u2), s, w1)
                        else send T (put_user s uid' u2) settle s w1))))"


subsection \<open>Projects\<close>

definition getProject :: "'st transport \<Rightarrow> string \<Rightarrow> swb \<Rightarrow> 'st world \<Rightarrow> outcome \<times> swb \<times> 'st world" where
  "getProject T pid s w = fetch_json T (''/api/projects/'' @ pid) s w"

text \<open>
  \<^verbatim>\<open>updateProject(proj)\<close>. The five property reads come before the promise, so an
  argument that is \<^verbatim>\<open>null\<close> or \<^verbatim>\<open>undefined\<close> makes the method raise.
\<close>

definition updateProject :: "'st transport \<Rightarrow> jsval \<Rightarrow> swb \<Rightarrow> 'st world \<Rightarrow> outcome \<times> swb \<times> 'st world" where
  "updateProject T proj s w =
     (if proj = Undefined \<or> proj = Null then (Threw TypeError, s, w)
      else
        (let prop = (\<lambda>k. case get_prop proj k of Inl e \<Rightarrow> Undefined | Inr v \<Rightarrow> v);
             newProj = Obj [(''description'', prop ''description''),
                            (''id'', prop ''id''),
                            (''indexId'', prop ''indexId''),
                            (''projectAdmins'', prop ''projectAdmins''),
                            (''rev'', prop ''rev'')]
         in if dryrun s then (Resolved newProj, s, w)
            else send T \<lparr>verb = PUT,
                         url = api s @ ''/api/projects/'' @ js_string (prop ''id''),
                         headers = auth_headers s, body = Some newProj\<rparr> settle s w))"

definition getProjects :: "'st transport \<Rightarrow> swb \<Rightarrow> 'st world \<Rightarrow> outcome \<times> swb \<times> 'st world" where
  "getProjects T s w = fetch_json T ''/api/projects'' s w"

text \<open>\<^verbatim>\<open>createProject(projectId, description, index, admins)\<close>.\<close>

definition createProject ::
  "'st transport \<Rightarrow> string \<Rightarrow> string \<Rightarrow> jsval \<Rightarrow> jsval \<Rightarrow> swb \<Rightarrow> 'st world
   \<Rightarrow> outcome \<times> swb \<times> 'st world" where
  "createProject T pid description index admins s w =
     (case get_prop index ''id'' of
        Inl e \<Rightarrow> (Threw e, s, w)
      | Inr index_id \<Rightarrow>
          (case js_map_uid admins of
             Inl e \<Rightarrow> (Threw e, s, w)
           | Inr uids \<Rightarrow>
               (let body = Obj [(''id'', Str pid),
                                (''description'', Str description),
                                (''indexId'', index_id),
                                (''projectAdmins'', uids)]
                in if dryrun s then (Resolved body, s, w)
                   else send T \<lparr>verb = POST, url = api s @ ''/api/projects'',
                                headers = auth_headers s, body = Some body\<rparr> settle s w)))"

subsection \<open>Studies\<close>

text \<open>
  \<^verbatim>\<open>getStudies(category="Organization")\<close>. The method is not \<^verbatim>\<open>async\<close>: its
  \<^verbatim>\<open>throw\<close> leaves the method before a promise exists.
\<close>

definition getStudies :: "'st transport \<Rightarrow> string option \<Rightarrow> swb \<Rightarrow> 'st world \<Rightarrow> outcome \<times> swb \<times> 'st world" where
  "getStudies T category' s w =
     (let category = default ''Organization'' category'
      in if category \<notin> set [''Organization'', ''My Studies'']
         then (Threw (Thrown (Str ''Invalid category type.'')), s, w)
         else fetch_json T (''/api/studies/?category='' @ encodeURI category) s w)"

definition getStudy :: "'st transport \<Rightarrow> string \<Rightarrow> swb \<Rightarrow> 'st world \<Rightarrow> outcome \<times> swb \<times> 'st world" where
  "getStudy T studyId s w = fetch_json T (''/api/studies/'' @ studyId) s w"

text \<open>
  \<^verbatim>\<open>createStudy(id, name, description, projectId, category="Organization",
  studyType="unstructured", uploadLocationEnabled=true)\<close>. The body is printed to the
  console before the promise is built.
\<close>

definition createStudy ::
  "'st transport \<Rightarrow> string \<Rightarrow> string \<Rightarrow> string \<Rightarrow> string \<Rightarrow> string option \<Rightarrow> string option
   \<Rightarrow> bool option \<Rightarrow> swb \<Rightarrow> 'st world \<Rightarrow> outcome \<times> swb \<times> 'st world" where
  "createStudy T id' name description pid category' studyType' uploadLocationEnabled' s w =
     (let category = default ''Organization'' category';
          studyType = default ''unstructured'' studyType';
          uploadLocationEnabled = default True uploadLocationEnabled'
      in if category \<notin> set [''Organization'', ''My Studies'']
         then (Threw (Thrown (Str ''Invalid category type.'')), s, w)
         else if studyType \<notin> set [''unstructured'', ''structured'']
         then (Threw (Thrown (Str ''Invalid study type'')), s, w)
         else
           (let body = Obj [(''id'', Str id'),
                            (''studyType'', Str studyType),
                            (''name'', Str name),
                            (''description'', Str description),
                            (''projectId'', Arr [Str pid]),
                            (''category'', Str category),
                            (''uploadLocationEnabled'', Bool uploadLocationEnabled)];
                w0 = w\<lparr>console := console w @ [body]\<rparr>
            in if dryrun s then (Resolved body, s, w0)
               else send T \<lparr>verb = POST, url = api s @ ''/api/studies'',
                            headers = auth_headers s, body = Some body\<rparr> settle s w0))"

definition getStudyPermissions :: "'st transport \<Rightarrow> string \<Rightarrow> swb \<Rightarrow> 'st world \<Rightarrow> outcome \<times> swb \<times> 'st world" where
  "getStudyPermissions T studyId s w = fetch_json T (''/api/studies/'' @ studyId @ ''/permissions'') s w"

text \<open>
  The chain \<^verbatim>\<open>.then(r => r.json()).then(p => {...})\<close> of
  \<^verbatim>\<open>addRemoveStudyPermission\<close>: a reply that carries a property \<^verbatim>\<open>code\<close>
  rejects the promise with the reply's \<^verbatim>\<open>message\<close>.
\<close>

definition settle_unless_code :: "reply \<Rightarrow> outcome" where
  "settle_unless_code r =
     (case json r of
        Inl e \<Rightarrow> Unsettled e
      | Inr p \<Rightarrow>
          (case hasOwnProperty p ''code'' of
             Inl e \<Rightarrow> Unsettled e
           | Inr True \<Rightarrow>
               (case get_prop p ''message'' of
                  Inl e \<Rightarrow> Unsettled e
                | Inr m \<Rightarrow> Rejected (Thrown m))
           | Inr False \<Rightarrow> Resolved p))"

text \<open>
  \<^verbatim>\<open>addRemoveStudyPermission(studyId, userId, action, permissionLevel="readonly")\<close>.
\<close>

definition addRemoveStudyPermission ::
  "'st transport \<Rightarrow> string \<Rightarrow> string \<Rightarrow> string \<Rightarrow> string option \<Rightarrow> swb \<Rightarrow> 'st world
   \<Rightarrow> outcome \<times> swb \<times> 'st world" where
  "addRemoveStudyPermission T studyId userId action permissionLevel' s w =
     (let permissionLevel = default ''readonly'' permissionLevel'
      in if permissionLevel \<notin> set [''readonly'', ''admin'']
         then (Threw (Thrown (Str ''Invalid permission level'')), s, w)
         else if action \<notin> set [''add'', ''remove'']
         then (Threw (Thrown (Str ''Invalid action'')), s, w)
         else
           (let entry = Obj [(''uid'', Str userId), (''permissionLevel'', Str permissionLevel)];
                body = (if action = ''add''
                        then Obj [(''usersToAdd'', Arr [entry]), (''usersToRemove'', Arr [])]
                        else Obj [(''usersToAdd'', Arr []), (''usersToRemove'', Arr [entry])])
            in if dryrun s then (Resolved body, s, w)
               else send T \<lparr>verb = PUT,
                            url = api s @ ''/api/studies/'' @ studyId @ ''/permissions'',
                            headers = auth_headers s, body = Some body\<rparr>
                      settle_unless_code s w))"

subsection \<open>Workspace types and configurations\<close>

definition getWorkspaceTypes :: "'st transport \<Rightarrow> swb \<Rightarrow> 'st world \<Rightarrow> outcome \<times> swb \<times> 'st world" where
  "getWorkspaceTypes T s w = fetch_json T ''/api/workspace-types?status=*'' s w"

definition getWorkspaceConfigurations ::
  "'st transport \<Rightarrow> string \<Rightarrow> swb \<Rightarrow> 'st world \<Rightarrow> outcome \<times> swb \<times> 'st world" where
  "getWorkspaceConfigurations T workspaceType s w =
     fetch_json T (''/api/workspace-types/'' @ workspaceType @ ''/configurations/?include=all'') s w"

text \<open>\<^verbatim>\<open>delete obj[k]\<close> on the property list of an object.\<close>

definition delete :: "string \<Rightarrow> (string \<times> jsval) list \<Rightarrow> (string \<times> jsval) list" where
  "delete k kvs = filter (\<lambda>kv. fst kv \<noteq> k) kvs"

text \<open>
  \<^verbatim>\<open>updateWorkspaceConfiguration(workspaceType, workspaceConfObj)\<close>. The second
  argument is a reference \<open>ref\<close> to an object of the caller; the five \<^verbatim>\<open>delete\<close>
  statements act on that object. A reference to no object stands for an argument that
  is \<^verbatim>\<open>null\<close> or \<^verbatim>\<open>undefined\<close>, on which \<^verbatim>\<open>delete\<close> raises. The method never
  reads \<^verbatim>\<open>this.dryrun\<close>.
\<close>

definition updateWorkspaceConfiguration ::
  "'st transport \<Rightarrow> string \<Rightarrow> nat \<Rightarrow> swb \<Rightarrow> 'st world \<Rightarrow> outcome \<times> swb \<times> 'st world" where
  "updateWorkspaceConfiguration T workspaceType ref s w =
     (case objects w ref of
        None \<Rightarrow> (Threw TypeError, s, w)
      | Some workspaceConfObj \<Rightarrow>
          (let obj = delete ''createdBy'' workspaceConfObj;
               obj = delete ''updatedBy'' obj;
               obj = delete ''createdAt'' obj;
               obj = delete ''updatedAt'' obj;
               obj = delete ''allowedToUse'' obj;
               w0 = w\<lparr>objects := (objects w)(ref \<mapsto> obj)\<rparr>
           in send T \<lparr>verb = PUT,
                      url = api s @ ''/api/workspace-types/'' @ workspaceType
                            @ ''/configurations/'' @ js_string (lookup obj ''id''),
                      headers = auth_headers s, body = Some (Obj obj)\<rparr> settle s w0))"

subsection \<open>The public interface\<close>

text \<open>One constructor for each public method of the class, with its arguments.\<close>

datatype call =
    Login
  | GetIdp string
  | AddFederatedUser jsval string string "string option"
  | GetUserByEmailAndIdp string string
  | UpdateUserDetails string string string string string
  | AddRemoveProjectUser string string "string option"
  | GetProject string
  | UpdateProject jsval
  | GetProjects
  | CreateProject string string jsval jsval
  | GetStudies "string option"
  | GetStudy string
  | CreateStudy string string string string "string option" "string option" "bool option"
  | GetStudyPermissions string
  | AddRemoveStudyPermission string string string "string option"
  | GetWorkspaceTypes
  | GetWorkspaceConfigurations string
  | UpdateWorkspaceConfiguration string nat

fun invoke :: "'st transport \<Rightarrow> call \<Rightarrow> swb \<Rightarrow> 'st world \<Rightarrow> outcome \<times> swb \<times> 'st world" where
  "invoke T Login = login T"
| "invoke T (GetIdp name) = getIdp T name"
| "invoke T (AddFederatedUser idp adpUrl e role) = addFederatedUser T idp adpUrl e role"
| "invoke T (GetUserByEmailAndIdp e idpName) = getUserByEmailAndIdp T e idpName"
| "invoke T (UpdateUserDetails u f l st r) = updateUserDetails T u f l st r"
| "invoke T (AddRemoveProjectUser p u a) = addRemoveProjectUser T p u a"
| "invoke T (GetProject p) = getProject T p"
| "invoke T (UpdateProject proj) = updateProject T proj"
| "invoke T GetProjects = getProjects T"
| "invoke T (CreateProject p d i a) = createProject T p d i a"
| "invoke T (GetStudies c) = getStudies T c"
| "invoke T (GetStudy i) = getStudy T i"
| "invoke T (CreateStudy i n d p c t u) = createStudy T i n d p c t u"
| "invoke T (GetStudyPermissions i) = getStudyPermissions T i"
| "invoke T (AddRemoveStudyPermission i u a l) = addRemoveStudyPermission T i u a l"
| "invoke T GetWorkspaceTypes = getWorkspaceTypes T"
| "invoke T (GetWorkspaceConfigurations t) = getWorkspaceConfigurations T t"
| "invoke T (UpdateWorkspaceConfiguration t r) = updateWorkspaceConfiguration T t r"

text \<open>
  The methods that send a POST or a PUT other than the credential exchange of
  \<^verbatim>\<open>login\<close>, and the requests that write.
\<close>

fun mutating :: "call \<Rightarrow> bool" where
  "mutating (AddFederatedUser idp adpUrl e role) = True"
| "mutating (UpdateUserDetails u f l st r) = True"
| "mutating (AddRemoveProjectUser p u a) = True"
| "mutating (UpdateProject proj) = True"
| "mutating (CreateProject p d i a) = True"
| "mutating (CreateStudy i n d p c t u) = True"
| "mutating (AddRemoveStudyPermission i u a l) = True"
| "mutating (UpdateWorkspaceConfiguration t r) = True"
| "mutating _ = False"

definition is_write :: "request \<Rightarrow> bool" where
  "is_write rq = (verb rq \<noteq> GET)"

definition writes :: "request list \<Rightarrow> request list" where
  "writes rqs = filter is_write rqs"


subsection \<open>Stub services and sample data\<close>

text \<open>
  The remote service is not part of the client. The theorems below hold for every
  transport; the stubs here are the concrete services on which they are run.
  \<open>replying rp\<close> gives the same reply to every request and keeps no state.
\<close>

definition replying :: "reply \<Rightarrow> unit transport" where
  "replying rp st rq = (rp, st)"

definition ok :: "jsval \<Rightarrow> reply" where
  "ok v = Response 200 (Some v)"

text \<open>
  \<open>user_store\<close> keeps a list of user records. It replies to every request with the
  records it holds. A PUT to an address that ends in \<^verbatim>\<open>/api/users/<uid>\<close> first
  replaces the updatable properties of the records with that uid by those of the body.
\<close>

definition ends_with :: "string \<Rightarrow> string \<Rightarrow> bool" where
  "ends_with t s = (length t \<le> length s \<and> drop (length s - length t) s = t)"

definition store_put :: "request \<Rightarrow> user \<Rightarrow> user" where
  "store_put rq u =
     (case body rq of
        Some (UpdateV u2) \<Rightarrow>
          if ends_with (''/api/users/'' @ uid u) (url rq)
          then updatable.extend u2 (updatable.more u) else u
      | _ \<Rightarrow> u)"

definition user_store :: "user list transport" where
  "user_store st rq =
     (let st' = (if verb rq = PUT then map (store_put rq) st else st)
      in (ok (Arr (map UserV st')), st'))"

definition world0 :: "'st \<Rightarrow> 'st world" where
  "world0 st = \<lparr>server = st, sent = [], objects = Map.empty, console = []\<rparr>"

definition client0 :: swb where
  "client0 = constructor ''https://swb.test'' ''admin'' ''secret''"

definition ada :: "string list \<Rightarrow> user" where
  "ada ps =
     \<lparr>applyReason = ''N/A'', email = ''a@b.com'', firstName = ''Ada'', isAdmin = False,
      isExternalUser = True, lastName = ''Byron'', projectId = ps, rev' = 3,
      status = ''active'', userRole = ''researcher'',
      authenticationProviderId = ''pool-1'', createdAt = ''2021-01-01'', createdBy = ''u-0'',
      encryptedCreds = ''N/A'', identityProviderName = ''idpX'', ns = ''idpX||pool-1'',
      uid = ''u-1'', updatedAt = ''2021-01-02'', username' = ''a@b.com'',
      usernameInIdp = ''a@b.com''\<rparr>"

definition bob :: user where
  "bob = (ada [''p9''])\<lparr>email := ''c@d.org'', uid := ''u-2'', firstName := ''Bob''\<rparr>"

text \<open>The properties that \<^verbatim>\<open>updateWorkspaceConfiguration\<close> deletes.\<close>

definition server_managed :: "string list" where
  "server_managed = [''createdBy'', ''updatedBy'', ''createdAt'', ''updatedAt'', ''allowedToUse'']"

definition conf0 :: "(string \<times> jsval) list" where
  "conf0 = [(''id'', Str ''c-1''), (''createdBy'', Str ''u-0''), (''name'', Str ''small''),
            (''updatedAt'', Str ''2021-01-02''), (''allowedToUse'', Arr [Str ''admin'']),
            (''rev'', Num 2)]"

text \<open>
  A transport that does not look at the headers of a request: it is given by a function
  of the verb, the address and the body.
\<close>

definition header_blind :: "('st \<Rightarrow> verb \<Rightarrow> string \<Rightarrow> jsval option \<Rightarrow> reply \<times> 'st) \<Rightarrow> 'st transport" where
  "header_blind f st rq = f st (verb rq) (url rq) (body rq)"

definition unheaded :: "request \<Rightarrow> verb \<times> string \<times> jsval option" where
  "unheaded rq = (verb rq, url rq, body rq)"


text \<open>
  Two results agree in everything but the headers of the requests sent (and the client
  object): the same outcome, the same requests otherwise, the same service state and
  the same caller objects.
\<close>

definition same_but_headers ::
  "(outcome \<times> swb \<times> 'st world) \<Rightarrow> (outcome \<times> swb \<times> 'st world) \<Rightarrow> bool" where
  "same_but_headers a b =
     (fst a = fst b \<and>
      map unheaded (sent (snd (snd a))) = map unheaded (sent (snd (snd b))) \<and>
      server (snd (snd a)) = server (snd (snd b)) \<and>
      objects (snd (snd a)) = objects (snd (snd b)))"

text \<open>
  \<^verbatim>\<open>addRemoveProjectUser(pid, x, "add")\<close> called twice in sequence: the second call
  starts where the first one ended. Both results are returned.
\<close>

definition twice ::
  "'st transport \<Rightarrow> string \<Rightarrow> string \<Rightarrow> swb \<Rightarrow> 'st world
   \<Rightarrow> (outcome \<times> swb \<times> 'st world) \<times> (outcome \<times> swb \<times> 'st world)" where
  "twice T pid x s w =
     (case addRemoveProjectUser T pid x (Some ''add'') s w of
        (out1, s1, w1) \<Rightarrow> ((out1, s1, w1), addRemoveProjectUser T pid x (Some ''add'') s1 w1))"

text \<open>Sample services: one user collection, one configuration, one project.\<close>

definition two_users :: "unit transport" where
  "two_users = replying (ok (Arr [UserV (ada [''q'', ''p'']), UserV bob]))"

definition conf_service :: "unit transport" where
  "conf_service = replying (ok (Obj conf0))"

definition conf_world :: "unit world" where
  "conf_world = (world0 ())\<lparr>objects := [0 \<mapsto> conf0]\<rparr>"

definition stripped_conf0 :: "(string \<times> jsval) list" where
  "stripped_conf0 = [(''id'', Str ''c-1''), (''name'', Str ''small''), (''rev'', Num 2)]"

definition put_conf0 :: request where
  "put_conf0 =
     \<lparr>verb = PUT, url = ''https://swb.test/api/workspace-types/wt-1/configurations/c-1'',
      headers = [(''Content-Type'', Str ''application/json''), (''Authorization'', Undefined)],
      body = Some (Obj stripped_conf0)\<rparr>"

definition blind_project :: "unit \<Rightarrow> verb \<Rightarrow> string \<Rightarrow> jsval option \<Rightarrow> reply \<times> unit" where
  "blind_project st v u b = (ok (Obj [(''id'', Str ''p1'')]), st)"

section \<open>Properties\<close>

subsection \<open>Auxiliary facts\<close>

lemma fetch_sent: "fetch T rq w = (rp, w1) \<Longrightarrow> sent w1 = sent w @ [rq]"
  by (auto simp: fetch_def split: prod.splits)

lemma fetch_objects: "fetch T rq w = (rp, w1) \<Longrightarrow> objects w1 = objects w"
  by (auto simp: fetch_def split: prod.splits)

lemma fetch_replying: "fetch (replying rp) rq w = (rp, w\<lparr>sent := sent w @ [rq]\<rparr>)"
  by (simp add: fetch_def replying_def)

lemma find_uid_users: "find_uid x (map UserV us) = Inr (find (\<lambda>u. uid u = x) us)"
  by (induction us) auto

lemma find_email_idp_users:
  "find_email_idp e i (map UserV us) =
     Inr (find (\<lambda>u. email u = e \<and> identityProviderName u = i) us)"
  by (induction us) auto

lemma count_list_removed: "count_list (filter (\<lambda>id. id \<noteq> pid) ids) pid = 0"
  by (induction ids) auto

lemma count_list_snoc: "count_list (xs @ [y]) x = count_list xs x + (if x = y then 1 else 0)"
  by (induction xs) auto

lemma rebuilt_count: "count_list (rebuilt ids pid action) pid \<le> Suc 0"
  by (simp add: rebuilt_def Let_def count_list_snoc count_list_removed)

lemma count_list_sort: "count_list (sort xs) x = count_list xs x"
proof -
  have "count (mset (sort xs)) x = count (mset xs) x" by simp
  then show ?thesis by (simp only: count_mset)
qed

lemma sorted_rebuilt_count: "count_list (sort (rebuilt ids pid action)) pid \<le> Suc 0"
  by (simp add: count_list_sort rebuilt_count)

text \<open>When the rebuilt list is a rearrangement of the list it was built from.\<close>

lemma mset_rebuilt_add:
  assumes "count_list ids pid = 1"
  shows "mset (rebuilt ids pid ''add'') = mset ids"
proof (rule multiset_eqI)
  fix x
  have "count (mset ids) pid = 1"
    using assms by (simp only: count_mset)
  then show "count (mset (rebuilt ids pid ''add'')) x = count (mset ids) x"
    by (cases "x = pid") (simp_all add: rebuilt_def)
qed

lemma mset_rebuilt_remove:
  assumes "action \<noteq> ''add''" and "pid \<notin> set ids"
  shows "mset (rebuilt ids pid action) = mset ids"
proof -
  from assms(2) have "filter (\<lambda>id. id \<noteq> pid) ids = ids"
    by (induction ids) auto
  with assms(1) show ?thesis by (simp add: rebuilt_def)
qed

lemma sort_cong_mset:
  fixes xs ys :: "string list"
  assumes "mset xs = mset ys"
  shows "sort xs = sort ys"
proof (rule properties_for_sort)
  show "mset (sort ys) = mset xs" using assms by simp
  show "sorted (sort ys)" by simp
qed

lemma redundant_join:
  assumes "(action = ''add'' \<and> count_list ids pid = 1) \<or> (action \<noteq> ''add'' \<and> pid \<notin> set ids)"
  shows "join (sort ids) = join (sort (rebuilt ids pid action))"
proof -
  from assms have "mset (rebuilt ids pid action) = mset ids"
    using mset_rebuilt_add mset_rebuilt_remove by blast
  then have "sort (rebuilt ids pid action) = sort ids" by (rule sort_cong_mset)
  then show ?thesis by simp
qed

text \<open>The five deletions keep exactly the properties that are not server-managed.\<close>

lemma stripped:
  "delete ''allowedToUse'' (delete ''updatedAt'' (delete ''createdAt''
     (delete ''updatedBy'' (delete ''createdBy'' conf))))
   = filter (\<lambda>kv. fst kv \<notin> set server_managed) conf"
  by (induction conf) (auto simp: delete_def server_managed_def)

lemma encodeURI_Organization: "encodeURI ''Organization'' = ''Organization''"
  by (simp add: encodeURI_def encode_char_def uri_unescaped_def)

lemma encodeURI_My_Studies: "encodeURI ''My Studies'' = ''My%20Studies''"
  by (simp add: encodeURI_def encode_char_def uri_unescaped_def percent_def hex_digit_def)

text \<open>A run of \<^verbatim>\<open>updateWorkspaceConfiguration\<close> with the dry-run flag set.\<close>

lemma updateWorkspaceConfiguration_run:
  "updateWorkspaceConfiguration conf_service ''wt-1'' 0 (client0\<lparr>dryrun := True\<rparr>) conf_world
     = (Resolved (Obj conf0), client0\<lparr>dryrun := True\<rparr>,
        conf_world\<lparr>objects := [0 \<mapsto> stripped_conf0], sent := [put_conf0]\<rparr>)"
  by (simp add: updateWorkspaceConfiguration_def send_def fetch_def replying_def ok_def settle_def
        world0_def client0_def constructor_def conf0_def delete_def lookup_def auth_headers_def
        conf_service_def conf_world_def stripped_conf0_def put_conf0_def Let_def)

subsection \<open>Dry-run mode\<close>

text \<open>
  Seven of the eight mutating methods read the flag: with it set, none of them sends a
  write request.
\<close>

lemma dryrun_no_write:
  assumes "dryrun s" and "mutating c" and "\<forall>t r. c \<noteq> UpdateWorkspaceConfiguration t r"
    and "invoke T c s w = (out, s', w')"
  shows "writes (sent w') = writes (sent w)"
proof (cases c)
  case (AddFederatedUser i a e r)
  with assms show ?thesis
    by (auto simp: addFederatedUser_def Let_def split: sum.splits)
next
  case (UpdateUserDetails u a b c d)
  with assms show ?thesis
    by (auto simp: updateUserDetails_def Let_def writes_def is_write_def get_request_def
        split: prod.splits sum.splits option.splits dest!: fetch_sent)
next
  case (AddRemoveProjectUser p u a)
  with assms show ?thesis
    by (auto simp: addRemoveProjectUser_def Let_def writes_def is_write_def get_request_def
        split: prod.splits sum.splits option.splits if_splits dest!: fetch_sent)
next
  case (UpdateProject p)
  with assms show ?thesis
    by (auto simp: updateProject_def Let_def split: if_splits)
next
  case (CreateProject p d i a)
  with assms show ?thesis
    by (auto simp: createProject_def Let_def split: sum.splits)
next
  case (CreateStudy i n d p c t u)
  with assms show ?thesis
    by (auto simp: createStudy_def Let_def split: if_splits)
next
  case (AddRemoveStudyPermission i u a l)
  with assms show ?thesis
    by (auto simp: addRemoveStudyPermission_def Let_def split: if_splits)
qed (use assms in auto)

text \<open>The flag changes nothing in a method that does not mutate.\<close>

lemma fetch_json_dryrun:
  "fetch_json T p (s\<lparr>dryrun := b\<rparr>) w
     = (case fetch_json T p s w of (out, s', w') \<Rightarrow> (out, s'\<lparr>dryrun := b\<rparr>, w'))"
  by (simp add: fetch_json_def send_def get_request_def auth_headers_def split: prod.splits)

lemma dryrun_reads_unaffected:
  assumes "\<not> mutating c"
  shows "invoke T c (s\<lparr>dryrun := b\<rparr>) w
           = (case invoke T c s w of (out, s', w') \<Rightarrow> (out, s'\<lparr>dryrun := b\<rparr>, w'))"
proof (cases c)
  case Login
  then show ?thesis
    by (simp add: login_def login_request_def fetch_json_def send_def get_request_def
          auth_headers_def
        split: prod.splits reply.splits option.splits sum.splits)
next
  case (GetIdp n)
  then show ?thesis
    by (simp add: getIdp_def find_idp_def split: prod.splits sum.splits)
next
  case (GetUserByEmailAndIdp e i)
  then show ?thesis
    by (simp add: getUserByEmailAndIdp_def get_request_def auth_headers_def
        split: prod.splits sum.splits option.splits)
next
  case (GetStudies x)
  then show ?thesis
    by (simp add: getStudies_def Let_def fetch_json_dryrun)
qed (use assms in \<open>simp_all add: getProject_def getProjects_def getStudy_def
       getStudyPermissions_def getWorkspaceTypes_def getWorkspaceConfigurations_def
       fetch_json_dryrun\<close>)

text \<open>
  Claim C1 says that with the dry-run flag set every mutating method, and
  \<^verbatim>\<open>updateWorkspaceConfiguration\<close> by name, resolves with its payload and sends no
  write request. \<^verbatim>\<open>updateWorkspaceConfiguration\<close> does not read the flag: with the
  flag set, on the configuration \<open>conf0\<close>, it sends its PUT and resolves with the
  reply of the service.
\<close>

theorem dryrun_updateWorkspaceConfiguration_writes:
  "dryrun (client0\<lparr>dryrun := True\<rparr>) \<and>
   mutating (UpdateWorkspaceConfiguration ''wt-1'' 0) \<and>
   writes (sent (snd (snd (invoke conf_service (UpdateWorkspaceConfiguration ''wt-1'' 0)
                             (client0\<lparr>dryrun := True\<rparr>) conf_world))))
     = [put_conf0] \<and>
   fst (invoke conf_service (UpdateWorkspaceConfiguration ''wt-1'' 0)
          (client0\<lparr>dryrun := True\<rparr>) conf_world)
     = Resolved (Obj conf0)"
  by (simp add: updateWorkspaceConfiguration_run writes_def is_write_def put_conf0_def)

subsection \<open>Login\<close>

text \<open>The success path of \<^verbatim>\<open>login\<close>: the token is stored and sent with the second request.\<close>

lemma login_success:
  assumes "fetch T (login_request s) w = (Response 200 (Some auth), w1)"
    and "get_prop auth ''idToken'' = Inr t"
    and "fetch T (get_request (s\<lparr>token := t\<rparr>) ''/api/user'') w1 = (Response c (Some u), w2)"
  shows "login T s w = (Resolved u, s\<lparr>token := t\<rparr>, w2) \<and>
         sent w2 = sent w @ [login_request s, get_request (s\<lparr>token := t\<rparr>) ''/api/user''] \<and>
         lookup (headers (get_request (s\<lparr>token := t\<rparr>) ''/api/user'')) ''Authorization'' = t"
proof -
  have "login T s w = (Resolved u, s\<lparr>token := t\<rparr>, w2)"
    using assms by (simp add: login_def fetch_json_def send_def settle_def)
  moreover have "sent w2 = sent w @ [login_request s, get_request (s\<lparr>token := t\<rparr>) ''/api/user'']"
    using fetch_sent [OF assms(1)] fetch_sent [OF assms(3)] by simp
  ultimately show ?thesis
    by (simp add: get_request_def auth_headers_def lookup_def)
qed

text \<open>Any status other than 200 leaves the promise of \<^verbatim>\<open>login\<close> unsettled.\<close>

lemma login_other_status:
  assumes "fetch T (login_request s) w = (Response st b, w1)" and "st \<noteq> 200"
  shows "login T s w = (Unsettled (ErrorObj ''authentication failed''), s, w1)"
  using assms by (simp add: login_def)

text \<open>
  Claim C2 says that on a status that is not a success status the promise of
  \<^verbatim>\<open>login()\<close> rejects with an authentication error. On a reply with status 401 the
  error is raised, but inside the inner chain: the promise that \<^verbatim>\<open>login()\<close> returned
  is neither rejected nor resolved.
\<close>

theorem login_401_never_settles:
  "login (replying (Response 401 (Some (Obj [(''message'', Str ''Unauthorized'')]))))
       client0 (world0 ())
     = (Unsettled (ErrorObj ''authentication failed''), client0,
        (world0 ())\<lparr>sent := [login_request client0]\<rparr>)"
  by (simp add: login_def fetch_replying world0_def)

subsection \<open>Redundant changes of project membership\<close>

text \<open>
  Claim C3, as amended. When the sorted and joined list of the fetched record equals
  that of the rebuilt list, which is so whenever the action is \<^verbatim>\<open>'add'\<close> for a
  project the list holds exactly once or another action for a project the list does not
  hold, the call sends the one read request and no write, and resolves with the fetched
  record: its properties are as fetched, and its project list holds the same ids,
  sorted.
\<close>

theorem addRemoveProjectUser_redundant:
  assumes "fetch T (get_request s ''/api/users'') w
             = (Response st (Some (Arr (map UserV us))), w1)"
    and "find (\<lambda>u. uid u = x) us = Some u"
    and "(default ''add'' action = ''add'' \<and> count_list (projectId u) pid = 1)
         \<or> (default ''add'' action \<noteq> ''add'' \<and> pid \<notin> set (projectId u))
         \<or> join (sort (projectId u))
             = join (sort (rebuilt (projectId u) pid (default ''add'' action)))"
  shows "addRemoveProjectUser T pid x action s w
           = (Resolved (UserV (u\<lparr>projectId := sort (projectId u)\<rparr>)), s, w1) \<and>
         sent w1 = sent w @ [get_request s ''/api/users''] \<and>
         writes (sent w1) = writes (sent w)"
proof -
  from assms(3)
  have j: "join (sort (projectId u))
             = join (sort (rebuilt (projectId u) pid (default ''add'' action)))"
    using redundant_join by blast
  have "addRemoveProjectUser T pid x action s w
           = (Resolved (UserV (u\<lparr>projectId := sort (projectId u)\<rparr>)), s, w1)"
    using assms(1,2) j
    by (simp add: addRemoveProjectUser_def Let_def find_by_uid_def find_uid_users)
  moreover have "sent w1 = sent w @ [get_request s ''/api/users'']"
    using fetch_sent [OF assms(1)] .
  moreover from this have "writes (sent w1) = writes (sent w)"
    by (simp add: writes_def is_write_def get_request_def)
  ultimately show ?thesis by simp
qed

text \<open>
  The theorem for C3 at the user \<open>u-1\<close> with the projects \<open>q\<close> and \<open>p\<close>, added to \<open>p\<close>
  again.
\<close>

theorem addRemoveProjectUser_redundant_witness:
  "addRemoveProjectUser two_users ''p'' ''u-1'' (Some ''add'') client0 (world0 ())
     = (Resolved (UserV (ada [''p'', ''q''])), client0,
        (world0 ())\<lparr>sent := [get_request client0 ''/api/users'']\<rparr>) \<and>
   writes [get_request client0 ''/api/users''] = []"
proof -
  have f: "fetch two_users (get_request client0 ''/api/users'') (world0 ())
             = (Response 200 (Some (Arr (map UserV [ada [''q'', ''p''], bob]))),
                (world0 ())\<lparr>sent := sent (world0 ()) @ [get_request client0 ''/api/users'']\<rparr>)"
    by (simp add: two_users_def fetch_replying ok_def)
  have u: "find (\<lambda>u. uid u = ''u-1'') [ada [''q'', ''p''], bob] = Some (ada [''q'', ''p''])"
    by (simp add: ada_def)
  have c: "(default ''add'' (Some ''add'') = ''add''
              \<and> count_list (projectId (ada [''q'', ''p''])) ''p'' = 1)
           \<or> (default ''add'' (Some ''add'') \<noteq> ''add'' \<and> ''p'' \<notin> set (projectId (ada [''q'', ''p''])))
           \<or> join (sort (projectId (ada [''q'', ''p''])))
               = join (sort (rebuilt (projectId (ada [''q'', ''p''])) ''p''
                               (default ''add'' (Some ''add''))))"
    by (simp add: default_def ada_def)
  have e: "(ada [''q'', ''p''])\<lparr>projectId := sort (projectId (ada [''q'', ''p'']))\<rparr>
             = ada [''p'', ''q'']"
    by (simp add: ada_def)
  from addRemoveProjectUser_redundant [OF f u c] show ?thesis
    by (simp add: e world0_def writes_def)
qed

text \<open>
  Claim C3 as stated fails in two ways. Adding \<open>u-1\<close> to \<open>a\<close>, when the fetched list is
  \<open>b, a\<close>: the rebuilt list has the same elements, and the call resolves with a record
  whose list is \<open>a, b\<close>, not the list as fetched. Adding \<open>u-1\<close> to \<open>p\<close>, when the fetched
  list is \<open>p, p\<close>: the rebuilt list has the same elements again, and the call sends a PUT.
\<close>

theorem addRemoveProjectUser_redundant_counterexample:
  "set (rebuilt [''b'', ''a''] ''a'' ''add'') = set [''b'', ''a''] \<and>
   fst (addRemoveProjectUser (replying (ok (Arr [UserV (ada [''b'', ''a''])]))) ''a'' ''u-1''
          (Some ''add'') client0 (world0 ()))
     = Resolved (UserV (ada [''a'', ''b''])) \<and>
   ada [''a'', ''b''] \<noteq> ada [''b'', ''a''] \<and>
   set (rebuilt [''p'', ''p''] ''p'' ''add'') = set [''p'', ''p''] \<and>
   writes (sent (snd (snd (addRemoveProjectUser (replying (ok (Arr [UserV (ada [''p'', ''p''])])))
          ''p'' ''u-1'' (Some ''add'') client0 (world0 ())))))
     = [put_user client0 ''u-1'' (updatable.truncate (ada [''p'']))]"
  by (simp add: addRemoveProjectUser_def replying_def world0_def client0_def constructor_def
          ada_def fetch_def get_request_def put_user_def find_by_uid_def rebuilt_def default_def
          settle_def ok_def auth_headers_def updatable.truncate_def writes_def is_write_def
          send_def user.defs updatable.defs Let_def)

subsection \<open>Calls without a token\<close>

text \<open>
  A read method resolves with whatever the reply decodes to: neither the token nor the
  status of the reply is looked at.
\<close>

lemma fetch_json_any_status:
  assumes "fetch T (get_request s p) w = (Response st (Some v), w1)"
  shows "fetch_json T p s w = (Resolved v, s, w1)"
  using assms by (simp add: fetch_json_def send_def settle_def)

lemma fetch_blind:
  "fetch (header_blind f) rq w =
     (case f (server w) (verb rq) (url rq) (body rq) of
        (rp, st) \<Rightarrow> (rp, w\<lparr>server := st, sent := sent w @ [rq]\<rparr>))"
  by (simp add: fetch_def header_blind_def)

lemma same_but_headers_same: "same_but_headers (out, s1, w) (out, s2, w)"
  by (simp add: same_but_headers_def)

lemma send_blind:
  assumes "unheaded rq1 = unheaded rq2"
  shows "same_but_headers (send (header_blind f) rq1 k s1 w) (send (header_blind f) rq2 k s2 w)"
  using assms
  by (simp add: same_but_headers_def send_def fetch_blind unheaded_def split: prod.splits)

lemma unheaded_auth:
  "unheaded \<lparr>verb = v, url = api (s\<lparr>token := t1\<rparr>) @ p,
             headers = auth_headers (s\<lparr>token := t1\<rparr>), body = b\<rparr>
   = unheaded \<lparr>verb = v, url = api (s\<lparr>token := t2\<rparr>) @ p,
               headers = auth_headers (s\<lparr>token := t2\<rparr>), body = b\<rparr>"
  by (simp add: unheaded_def)

lemma fetch_json_blind:
  "same_but_headers (fetch_json (header_blind f) p (s\<lparr>token := t1\<rparr>) w)
                    (fetch_json (header_blind f) p (s\<lparr>token := t2\<rparr>) w)"
  unfolding fetch_json_def get_request_def by (rule send_blind) (rule unheaded_auth)

lemma login_blind:
  "same_but_headers (login (header_blind f) (s\<lparr>token := t1\<rparr>) w)
                    (login (header_blind f) (s\<lparr>token := t2\<rparr>) w)"
  by (simp add: same_but_headers_def login_def login_request_def fetch_json_def send_def
        fetch_blind get_request_def unheaded_def Let_def
      split: prod.splits reply.splits option.splits sum.splits)

lemma getIdp_blind:
  "same_but_headers (getIdp (header_blind f) n (s\<lparr>token := t1\<rparr>) w)
                    (getIdp (header_blind f) n (s\<lparr>token := t2\<rparr>) w)"
  by (simp add: same_but_headers_def getIdp_def find_idp_def fetch_blind unheaded_def Let_def
      split: prod.splits reply.splits option.splits sum.splits)

lemma addFederatedUser_blind:
  "same_but_headers (addFederatedUser (header_blind f) i a e r (s\<lparr>token := t1\<rparr>) w)
                    (addFederatedUser (header_blind f) i a e r (s\<lparr>token := t2\<rparr>) w)"
  by (simp add: addFederatedUser_def Let_def same_but_headers_same send_blind unheaded_def
      split: sum.splits)

lemma getUserByEmailAndIdp_blind:
  "same_but_headers (getUserByEmailAndIdp (header_blind f) e i (s\<lparr>token := t1\<rparr>) w)
                    (getUserByEmailAndIdp (header_blind f) e i (s\<lparr>token := t2\<rparr>) w)"
  by (simp add: same_but_headers_def getUserByEmailAndIdp_def fetch_blind unheaded_def
        get_request_def Let_def
      split: prod.splits reply.splits option.splits sum.splits)

lemma updateUserDetails_blind:
  "same_but_headers (updateUserDetails (header_blind f) u a b c d (s\<lparr>token := t1\<rparr>) w)
                    (updateUserDetails (header_blind f) u a b c d (s\<lparr>token := t2\<rparr>) w)"
  by (simp add: same_but_headers_def updateUserDetails_def fetch_blind unheaded_def send_def
        get_request_def put_user_def Let_def
      split: prod.splits reply.splits option.splits sum.splits)

lemma addRemoveProjectUser_blind:
  "same_but_headers (addRemoveProjectUser (header_blind f) p u a (s\<lparr>token := t1\<rparr>) w)
                    (addRemoveProjectUser (header_blind f) p u a (s\<lparr>token := t2\<rparr>) w)"
  by (simp add: same_but_headers_def addRemoveProjectUser_def fetch_blind unheaded_def send_def
        get_request_def put_user_def Let_def
      split: prod.splits reply.splits option.splits sum.splits)

lemma updateProject_blind:
  "same_but_headers (updateProject (header_blind f) p (s\<lparr>token := t1\<rparr>) w)
                    (updateProject (header_blind f) p (s\<lparr>token := t2\<rparr>) w)"
  by (simp add: updateProject_def Let_def same_but_headers_same send_blind unheaded_def)

lemma createProject_blind:
  "same_but_headers (createProject (header_blind f) p d i a (s\<lparr>token := t1\<rparr>) w)
                    (createProject (header_blind f) p d i a (s\<lparr>token := t2\<rparr>) w)"
  by (simp add: createProject_def Let_def same_but_headers_same send_blind unheaded_def
      split: sum.splits)

lemma getStudies_blind:
  "same_but_headers (getStudies (header_blind f) c (s\<lparr>token := t1\<rparr>) w)
                    (getStudies (header_blind f) c (s\<lparr>token := t2\<rparr>) w)"
  by (simp add: getStudies_def Let_def same_but_headers_same fetch_json_blind)

lemma createStudy_blind:
  "same_but_headers (createStudy (header_blind f) i n d p c t u (s\<lparr>token := t1\<rparr>) w)
                    (createStudy (header_blind f) i n d p c t u (s\<lparr>token := t2\<rparr>) w)"
  by (simp add: createStudy_def Let_def same_but_headers_same send_blind unheaded_def)

lemma addRemoveStudyPermission_blind:
  "same_but_headers (addRemoveStudyPermission (header_blind f) i u a l (s\<lparr>token := t1\<rparr>) w)
                    (addRemoveStudyPermission (header_blind f) i u a l (s\<lparr>token := t2\<rparr>) w)"
  by (simp add: addRemoveStudyPermission_def Let_def same_but_headers_same send_blind
        unheaded_def)

lemma updateWorkspaceConfiguration_blind:
  "same_but_headers (updateWorkspaceConfiguration (header_blind f) t r (s\<lparr>token := t1\<rparr>) w)
                    (updateWorkspaceConfiguration (header_blind f) t r (s\<lparr>token := t2\<rparr>) w)"
  by (simp add: updateWorkspaceConfiguration_def Let_def same_but_headers_same send_blind
        unheaded_def split: option.splits)

text \<open>
  Claim C4, as amended. No method checks whether a token is held. A call made without a
  token sends the requests it sends with a token, the value of the Authorization header
  apart, and against a service that does not look at the headers it ends as it does
  with any token \<open>t\<close>: with the same outcome, the same requests otherwise and the same
  state of the service.
\<close>

theorem token_never_checked:
  "same_but_headers (invoke (header_blind f) c (s\<lparr>token := Undefined\<rparr>) w)
                    (invoke (header_blind f) c (s\<lparr>token := t\<rparr>) w)"
  by (cases c)
     (simp_all only: invoke.simps login_blind getIdp_blind addFederatedUser_blind
        getUserByEmailAndIdp_blind updateUserDetails_blind addRemoveProjectUser_blind
        updateProject_blind createProject_blind getStudies_blind createStudy_blind
        addRemoveStudyPermission_blind updateWorkspaceConfiguration_blind
        getProject_def getProjects_def getStudy_def getStudyPermissions_def
        getWorkspaceTypes_def getWorkspaceConfigurations_def fetch_json_blind)

text \<open>
  The theorem for C4 at \<^verbatim>\<open>getProject("p1")\<close>: without a token and with the token
  \<open>T\<close> the call resolves with the project that the service returns.
\<close>

theorem token_never_checked_witness:
  "fst (invoke (header_blind blind_project) (GetProject ''p1'') (client0\<lparr>token := Undefined\<rparr>)
          (world0 ()))
     = Resolved (Obj [(''id'', Str ''p1'')]) \<and>
   fst (invoke (header_blind blind_project) (GetProject ''p1'') (client0\<lparr>token := Str ''T''\<rparr>)
          (world0 ()))
     = Resolved (Obj [(''id'', Str ''p1'')])"
proof -
  have "fst (invoke (header_blind blind_project) (GetProject ''p1'')
               (client0\<lparr>token := Undefined\<rparr>) (world0 ()))
          = Resolved (Obj [(''id'', Str ''p1'')])"
    by (simp add: getProject_def fetch_json_def send_def fetch_blind blind_project_def ok_def
          settle_def)
  with token_never_checked [of blind_project "GetProject ''p1''" client0 "world0 ()" "Str ''T''"]
  show ?thesis by (simp add: same_but_headers_def)
qed

text \<open>
  Claim C4 as stated fails: a client that was never logged in holds no token, and
  \<^verbatim>\<open>getProject("p1")\<close> on it sends its request, with the Authorization header
  undefined, and resolves with the reply of the service.
\<close>

theorem getProject_without_token_counterexample:
  "token client0 = Undefined \<and>
   getProject (replying (ok (Obj [(''id'', Str ''p1'')]))) ''p1'' client0 (world0 ())
     = (Resolved (Obj [(''id'', Str ''p1'')]), client0,
        (world0 ())\<lparr>sent := [\<lparr>verb = GET, url = ''https://swb.test/api/projects/p1'',
                               headers = [(''Content-Type'', Str ''application/json''),
                                          (''Authorization'', Undefined)],
                               body = None\<rparr>]\<rparr>)"
  by (simp add: getProject_def fetch_json_def send_def fetch_def replying_def ok_def settle_def
        world0_def client0_def constructor_def get_request_def auth_headers_def)

subsection \<open>The category of \<^verbatim>\<open>getStudies\<close>\<close>

text \<open>
  Claim C5. For each of the two categories \<^verbatim>\<open>getStudies\<close> sends one request, to the
  address that ends in \<^verbatim>\<open>?category=\<close> followed by the percent-encoded category and
  nothing else: \<open>Organization\<close> is encoded as itself and \<open>My Studies\<close> as
  \<open>My%20Studies\<close>. For every other string the method raises the validation error
  before a promise exists, and the world, with its log of requests, is as it was.
\<close>

theorem getStudies_category:
  "(category \<in> {''Organization'', ''My Studies''} \<longrightarrow>
      (\<exists>rp w'. getStudies T (Some category) s w = (settle rp, s, w') \<and>
         sent w' = sent w @ [\<lparr>verb = GET,
                                url = api s @ ''/api/studies/?category='' @ encodeURI category,
                                headers = auth_headers s, body = None\<rparr>]) \<and>
      encodeURI category
        = (if category = ''My Studies'' then ''My%20Studies'' else ''Organization'')) \<and>
   (category \<notin> {''Organization'', ''My Studies''} \<longrightarrow>
      getStudies T (Some category) s w
        = (Threw (Thrown (Str ''Invalid category type.'')), s, w))"
proof (intro conjI impI)
  assume c: "category \<in> {''Organization'', ''My Studies''}"
  obtain rp w' where
    f: "fetch T (get_request s (''/api/studies/?category='' @ encodeURI category)) w = (rp, w')"
    by (cases "fetch T (get_request s (''/api/studies/?category='' @ encodeURI category)) w")
  from c have "getStudies T (Some category) s w = (settle rp, s, w')"
    unfolding getStudies_def fetch_json_def send_def default_def Let_def using f by auto
  moreover from fetch_sent [OF f]
  have "sent w' = sent w @ [\<lparr>verb = GET,
                                url = api s @ ''/api/studies/?category='' @ encodeURI category,
                                headers = auth_headers s, body = None\<rparr>]"
    by (simp add: get_request_def)
  ultimately show "\<exists>rp w'. getStudies T (Some category) s w = (settle rp, s, w') \<and>
         sent w' = sent w @ [\<lparr>verb = GET,
                                url = api s @ ''/api/studies/?category='' @ encodeURI category,
                                headers = auth_headers s, body = None\<rparr>]"
    by blast
  from c show "encodeURI category
        = (if category = ''My Studies'' then ''My%20Studies'' else ''Organization'')"
    using encodeURI_Organization encodeURI_My_Studies by auto
next
  assume "category \<notin> {''Organization'', ''My Studies''}"
  then show "getStudies T (Some category) s w
        = (Threw (Thrown (Str ''Invalid category type.'')), s, w)"
    by (simp add: getStudies_def default_def)
qed

text \<open>
  The theorem for C5 at the category \<open>My Studies\<close> and at the string \<open>my studies\<close>,
  which is not a category.
\<close>

theorem getStudies_category_witness:
  "(\<exists>rp w'. getStudies two_users (Some ''My Studies'') client0 (world0 ())
               = (settle rp, client0, w') \<and>
            sent w' = [\<lparr>verb = GET,
                         url = ''https://swb.test/api/studies/?category=My%20Studies'',
                         headers = auth_headers client0, body = None\<rparr>]) \<and>
   getStudies two_users (Some ''my studies'') client0 (world0 ())
     = (Threw (Thrown (Str ''Invalid category type.'')), client0, world0 ())"
proof -
  have a: "api client0 = ''https://swb.test''"
    by (simp add: client0_def constructor_def)
  have b: "sent (world0 ()) = []"
    by (simp add: world0_def)
  have c: "''My Studies'' \<in> {''Organization'', ''My Studies''}"
    by simp
  have d: "''my studies'' \<notin> {''Organization'', ''My Studies''}"
    by simp
  from getStudies_category [of "''My Studies''" two_users client0 "world0 ()"] c
  have 1: "\<exists>rp w'. getStudies two_users (Some ''My Studies'') client0 (world0 ())
               = (settle rp, client0, w') \<and>
            sent w' = sent (world0 ()) @ [\<lparr>verb = GET,
                         url = api client0 @ ''/api/studies/?category='' @ encodeURI ''My Studies'',
                         headers = auth_headers client0, body = None\<rparr>]"
    by blast
  from getStudies_category [of "''my studies''" two_users client0 "world0 ()"] d
  have 2: "getStudies two_users (Some ''my studies'') client0 (world0 ())
     = (Threw (Thrown (Str ''Invalid category type.'')), client0, world0 ())"
    by blast
  from 1 2 show ?thesis
    by (simp add: a b encodeURI_My_Studies)
qed

subsection \<open>Looking a user up by email and identity provider\<close>

text \<open>
  Claim C6. Let the reply to the read of the user collection decode to \<open>users\<close>.
  If \<open>users\<close> is an array of user records none of which has both the given email and
  the given provider name, the promise is rejected with the message made of the email,
  the words \<open>not found for\<close> and the provider name; so it is for the empty array. If
  \<open>users\<close> is falsy the promise is rejected with \<open>users\<close> itself. If a record matches,
  the promise resolves with the first one that does.
\<close>

theorem getUserByEmailAndIdp_outcomes:
  assumes "fetch T (get_request s ''/api/users'') w = (Response st (Some users), w1)"
  shows "(users = Arr (map UserV us) \<and>
          (\<forall>u \<in> set us. \<not> (email u = e \<and> identityProviderName u = i)) \<longrightarrow>
            (\<exists>msg. getUserByEmailAndIdp T e i s w = (Rejected (Thrown (Str msg)), s, w1) \<and>
                   msg = e @ '' not found for '' @ i)) \<and>
         (users = Arr [] \<longrightarrow>
            getUserByEmailAndIdp T e i s w
              = (Rejected (Thrown (Str (e @ '' not found for '' @ i))), s, w1)) \<and>
         (\<not> truthy users \<longrightarrow>
            getUserByEmailAndIdp T e i s w = (Rejected (Thrown users), s, w1)) \<and>
         (\<forall>u. users = Arr (map UserV us) \<and>
              find (\<lambda>u. email u = e \<and> identityProviderName u = i) us = Some u \<longrightarrow>
              getUserByEmailAndIdp T e i s w = (Resolved (UserV u), s, w1) \<and>
              email u = e \<and> identityProviderName u = i)"
proof (intro conjI impI allI)
  assume a: "users = Arr (map UserV us) \<and>
          (\<forall>u \<in> set us. \<not> (email u = e \<and> identityProviderName u = i))"
  then have "find (\<lambda>u. email u = e \<and> identityProviderName u = i) us = None"
    by (simp add: find_None_iff)
  with a assms
  show "\<exists>msg. getUserByEmailAndIdp T e i s w = (Rejected (Thrown (Str msg)), s, w1) \<and>
                   msg = e @ '' not found for '' @ i"
    by (simp add: getUserByEmailAndIdp_def find_by_email_idp_def find_email_idp_users)
next
  assume "users = Arr []"
  with assms show "getUserByEmailAndIdp T e i s w
              = (Rejected (Thrown (Str (e @ '' not found for '' @ i))), s, w1)"
    by (simp add: getUserByEmailAndIdp_def find_by_email_idp_def)
next
  assume "\<not> truthy users"
  with assms show "getUserByEmailAndIdp T e i s w = (Rejected (Thrown users), s, w1)"
    by (simp add: getUserByEmailAndIdp_def)
next
  fix u
  assume a: "users = Arr (map UserV us) \<and>
              find (\<lambda>u. email u = e \<and> identityProviderName u = i) us = Some u"
  with assms show "getUserByEmailAndIdp T e i s w = (Resolved (UserV u), s, w1)"
    by (simp add: getUserByEmailAndIdp_def find_by_email_idp_def find_email_idp_users)
  from a show "email u = e" by (auto simp: find_Some_iff)
  from a show "identityProviderName u = i" by (auto simp: find_Some_iff)
qed

text \<open>
  The theorem for C6 on a collection of two records: the lookup of \<open>c@d.org\<close> resolves
  with the second, the lookup of \<open>C@d.org\<close>, which differs in case, is rejected; and on the reply \<^verbatim>\<open>null\<close>.
\<close>

theorem getUserByEmailAndIdp_outcomes_witness:
  "getUserByEmailAndIdp two_users ''c@d.org'' ''idpX'' client0 (world0 ())
     = (Resolved (UserV bob), client0,
        (world0 ())\<lparr>sent := [get_request client0 ''/api/users'']\<rparr>) \<and>
   getUserByEmailAndIdp two_users ''C@d.org'' ''idpX'' client0 (world0 ())
     = (Rejected (Thrown (Str ''C@d.org not found for idpX'')), client0,
        (world0 ())\<lparr>sent := [get_request client0 ''/api/users'']\<rparr>) \<and>
   getUserByEmailAndIdp (replying (ok Null)) ''C@d.org'' ''idpX'' client0 (world0 ())
     = (Rejected (Thrown Null), client0,
        (world0 ())\<lparr>sent := [get_request client0 ''/api/users'']\<rparr>)"
proof -
  let ?w1 = "(world0 ())\<lparr>sent := sent (world0 ()) @ [get_request client0 ''/api/users'']\<rparr>"
  have f: "fetch two_users (get_request client0 ''/api/users'') (world0 ())
             = (Response 200 (Some (Arr (map UserV [ada [''q'', ''p''], bob]))), ?w1)"
    by (simp add: two_users_def fetch_replying ok_def)
  have g: "fetch (replying (ok Null)) (get_request client0 ''/api/users'') (world0 ())
             = (Response 200 (Some Null), ?w1)"
    by (simp add: fetch_replying ok_def)
  have 1: "find (\<lambda>u. email u = ''c@d.org'' \<and> identityProviderName u = ''idpX'')
             [ada [''q'', ''p''], bob] = Some bob"
    by (simp add: ada_def bob_def)
  have 2: "\<forall>u \<in> set [ada [''q'', ''p''], bob].
             \<not> (email u = ''C@d.org'' \<and> identityProviderName u = ''idpX'')"
    by (simp add: ada_def bob_def)
  have 3: "\<not> truthy Null"
    by simp
  from getUserByEmailAndIdp_outcomes [OF f, of "[ada [''q'', ''p''], bob]" "''c@d.org''" "''idpX''"] 1
  have r1: "getUserByEmailAndIdp two_users ''c@d.org'' ''idpX'' client0 (world0 ())
              = (Resolved (UserV bob), client0, ?w1)"
    by blast
  from getUserByEmailAndIdp_outcomes [OF f, of "[ada [''q'', ''p''], bob]" "''C@d.org''" "''idpX''"] 2
  have r2: "getUserByEmailAndIdp two_users ''C@d.org'' ''idpX'' client0 (world0 ())
              = (Rejected (Thrown (Str (''C@d.org'' @ '' not found for '' @ ''idpX''))), client0, ?w1)"
    by blast
  from getUserByEmailAndIdp_outcomes [OF g, of "[]" "''C@d.org''" "''idpX''"] 3
  have r3: "getUserByEmailAndIdp (replying (ok Null)) ''C@d.org'' ''idpX'' client0 (world0 ())
              = (Rejected (Thrown Null), client0, ?w1)"
    by blast
  have b: "sent (world0 ()) = []"
    by (simp add: world0_def)
  from r1 r2 r3 show ?thesis
    by (simp add: b)
qed

subsection \<open>Adding a member twice\<close>

text \<open>
  Against any service: when the list that is read holds the project exactly once, the
  call of \<^verbatim>\<open>addRemoveProjectUser\<close> with the action \<^verbatim>\<open>'add'\<close> only reads.
\<close>

lemma member_once_call:
  assumes "T (server w) (get_request s ''/api/users'')
             = (Response c (Some (Arr (map UserV us))), st)"
    and "find (\<lambda>u. uid u = x) us = Some u"
    and "count_list (projectId u) pid = 1"
  shows "addRemoveProjectUser T pid x (Some ''add'') s w
           = (Resolved (UserV (u\<lparr>projectId := sort (projectId u)\<rparr>)), s,
              w\<lparr>server := st, sent := sent w @ [get_request s ''/api/users'']\<rparr>)"
proof -
  have "sort (rebuilt (projectId u) pid ''add'') = sort (projectId u)"
    using assms(3) by (intro sort_cong_mset mset_rebuilt_add)
  with assms(1,2) show ?thesis
    by (simp add: addRemoveProjectUser_def Let_def find_by_uid_def find_uid_users fetch_def
          default_def)
qed

text \<open>The storing service: what it replies, and what a PUT does to its records.\<close>

lemma store_read:
  "user_store st (get_request s p) = (Response 200 (Some (Arr (map UserV st))), st)"
  by (simp add: user_store_def get_request_def ok_def)

lemma store_write:
  "user_store st (put_user s x u2)
     = (Response 200 (Some (Arr (map UserV (map (store_put (put_user s x u2)) st)))),
        map (store_put (put_user s x u2)) st)"
  by (simp add: user_store_def put_user_def ok_def)

lemma uid_store_put: "uid (store_put rq u) = uid u"
  by (cases u) (simp add: store_put_def updatable.defs user.defs split: option.splits jsval.splits)

lemma find_store_put:
  "find (\<lambda>u. uid u = x) (map (store_put rq) st)
     = map_option (store_put rq) (find (\<lambda>u. uid u = x) st)"
  by (induction st) (simp_all add: uid_store_put)

lemma ends_with_append: "ends_with t (p @ t)"
  by (simp add: ends_with_def)

lemma projectId_store_put:
  "projectId (store_put (put_user s (uid u) u2) u) = projectId u2"
proof -
  have "ends_with (''/api/users/'' @ uid u) (api s @ ''/api/users/'' @ uid u)"
    using ends_with_append [of "''/api/users/'' @ uid u" "api s"] by simp
  then show ?thesis
    by (simp add: store_put_def put_user_def updatable.defs)
qed

lemma count_rebuilt_add: "count_list (rebuilt ids pid ''add'') pid = 1"
  by (simp add: rebuilt_def count_list_snoc count_list_removed)

lemma set_rebuilt_add: "pid \<in> set ids \<Longrightarrow> set (rebuilt ids pid ''add'') = set ids"
  by (auto simp: rebuilt_def)


lemma store_call_same:
  assumes "find (\<lambda>u. uid u = x) (server w) = Some u"
    and "join (sort (projectId u)) = join (sort (rebuilt (projectId u) pid ''add''))"
  shows "addRemoveProjectUser user_store pid x (Some ''add'') s w
           = (Resolved (UserV (u\<lparr>projectId := sort (projectId u)\<rparr>)), s,
              w\<lparr>sent := sent w @ [get_request s ''/api/users'']\<rparr>)"
  using assms
  by (simp add: addRemoveProjectUser_def Let_def fetch_def store_read find_by_uid_def
        find_uid_users default_def)

lemma store_call_dry:
  assumes "find (\<lambda>u. uid u = x) (server w) = Some u"
    and "join (sort (projectId u)) \<noteq> join (sort (rebuilt (projectId u) pid ''add''))"
    and "dryrun s"
  shows "addRemoveProjectUser user_store pid x (Some ''add'') s w
           = (Resolved (UpdateV ((updatable.truncate u)
                                  \<lparr>projectId := sort (rebuilt (projectId u) pid ''add'')\<rparr>)), s,
              w\<lparr>sent := sent w @ [get_request s ''/api/users'']\<rparr>)"
  using assms
  by (simp add: addRemoveProjectUser_def Let_def fetch_def store_read find_by_uid_def
        find_uid_users default_def updatable.truncate_def)

lemma store_call_write:
  assumes "find (\<lambda>u. uid u = x) (server w) = Some u"
    and "join (sort (projectId u)) \<noteq> join (sort (rebuilt (projectId u) pid ''add''))"
    and "\<not> dryrun s"
    and "rq = put_user s x ((updatable.truncate u)
                              \<lparr>projectId := sort (rebuilt (projectId u) pid ''add'')\<rparr>)"
  shows "addRemoveProjectUser user_store pid x (Some ''add'') s w
           = (Resolved (Arr (map UserV (map (store_put rq) (server w)))), s,
              w\<lparr>server := map (store_put rq) (server w),
                sent := sent w @ [get_request s ''/api/users'', rq]\<rparr>)"
  using assms
  by (simp add: addRemoveProjectUser_def Let_def fetch_def store_read store_write find_by_uid_def
        find_uid_users default_def updatable.truncate_def send_def settle_def)


text \<open>
  A list that holds the project more than once never passes the comparison: the two
  joined strings differ in length.
\<close>

lemma length_join: "length (join xs) = sum_list (map length xs) + (length xs - 1)"
  by (induction xs rule: join.induct) simp_all

lemma sum_length_sort: "sum_list (map length (sort xs)) = sum_list (map length (xs :: string list))"
proof -
  have "sum_mset (image_mset length (mset (sort xs))) = sum_mset (image_mset length (mset xs))"
    by simp
  then show ?thesis
    by (simp only: sum_mset_sum_list [symmetric] mset_map)
qed

lemma split_by_target:
  "length ids = length (filter (\<lambda>id. id \<noteq> pid) ids) + count_list ids pid \<and>
   sum_list (map length ids)
     = sum_list (map length (filter (\<lambda>id. id \<noteq> pid) ids)) + count_list ids pid * length pid"
  by (induction ids) auto

lemma duplicated_join:
  assumes "1 < count_list ids pid"
  shows "join (sort ids) \<noteq> join (sort (rebuilt ids pid ''add''))"
proof
  assume "join (sort ids) = join (sort (rebuilt ids pid ''add''))"
  then have "length (join (sort ids)) = length (join (sort (rebuilt ids pid ''add'')))"
    by simp
  then have "sum_list (map length ids) + (length ids - 1)
               = sum_list (map length (rebuilt ids pid ''add''))
                 + (length (rebuilt ids pid ''add'') - 1)"
    by (simp add: length_join sum_length_sort)
  moreover have "\<exists>k. count_list ids pid = Suc (Suc k)"
    using assms by presburger
  then obtain k where k: "count_list ids pid = Suc (Suc k)"
    by blast
  ultimately show False
    using split_by_target [of ids pid]
    by (simp add: rebuilt_def)
qed


lemma twice_second:
  assumes "addRemoveProjectUser T pid x (Some ''add'') s w = (o1, s, v1)"
    and "addRemoveProjectUser T pid x (Some ''add'') s v1 = (o2, s, v2)"
    and "twice T pid x s w = ((out1, s1, w1), (out2, s2, w2))"
  shows "out1 = o1 \<and> w1 = v1 \<and> out2 = o2 \<and> w2 = v2"
  using assms by (simp add: twice_def)

lemma writes_append: "writes (xs @ ys) = writes xs @ writes ys"
  by (simp add: writes_def)

lemma writes_Cons: "writes (rq # rqs) = (if is_write rq then rq # writes rqs else writes rqs)"
  by (simp add: writes_def)

lemma writes_read: "\<not> is_write (get_request s p)"
  by (simp add: is_write_def get_request_def)

lemma writes_Nil: "writes [] = []"
  by (simp add: writes_def)


lemma is_write_put: "is_write (put_user s x u2)"
  by (simp add: is_write_def put_user_def)

text \<open>
  Claim C7, as amended. Let \<^verbatim>\<open>addRemoveProjectUser(pid, x, "add")\<close> be called twice
  in sequence on a user who is a member of the project, against the service that stores
  what is PUT to it. The second call sends its read and no write request, resolves, and
  leaves the store as the first call left it; the user's set of project ids is what it
  was. If the list held the project exactly once, neither call writes and the stored
  list is unchanged. If it held the project more than once and the dry-run flag is not
  set, the first call writes the list sorted and with the project once, and that is the
  list stored afterwards.
\<close>

theorem redundant_add_twice:
  assumes f: "find (\<lambda>u. uid u = x) (server w) = Some u"
    and m: "pid \<in> set (projectId u)"
    and t: "twice user_store pid x s w = ((out1, s1, w1), (out2, s2, w2))"
  shows "sent w2 = sent w1 @ [get_request s ''/api/users''] \<and>
         writes (sent w2) = writes (sent w1) \<and>
         (\<exists>v. out2 = Resolved v) \<and>
         server w2 = server w1 \<and>
         (\<exists>u'. find (\<lambda>u. uid u = x) (server w2) = Some u' \<and>
               set (projectId u') = set (projectId u)) \<and>
         (count_list (projectId u) pid = 1 \<longrightarrow>
            server w2 = server w \<and> writes (sent w2) = writes (sent w) \<and>
            find (\<lambda>u. uid u = x) (server w2) = Some u) \<and>
         (1 < count_list (projectId u) pid \<and> \<not> dryrun s \<longrightarrow>
            writes (sent w1)
              = writes (sent w)
                @ [put_user s x ((updatable.truncate u)
                     \<lparr>projectId := sort (rebuilt (projectId u) pid ''add'')\<rparr>)] \<and>
            (\<exists>u'. find (\<lambda>u. uid u = x) (server w2) = Some u' \<and>
                  projectId u' = sort (rebuilt (projectId u) pid ''add'')))"
proof -
  let ?get = "get_request s ''/api/users''"
  let ?J = "join (sort (projectId u)) = join (sort (rebuilt (projectId u) pid ''add''))"
  have once: "count_list (projectId u) pid = 1 \<Longrightarrow> ?J"
    using redundant_join [of "''add''" "projectId u" pid] by simp
  show ?thesis
  proof (cases ?J)
    case True
    then have few: "\<not> 1 < count_list (projectId u) pid"
      using duplicated_join by blast
    let ?v1 = "w\<lparr>sent := sent w @ [?get]\<rparr>"
    have 1: "addRemoveProjectUser user_store pid x (Some ''add'') s w
               = (Resolved (UserV (u\<lparr>projectId := sort (projectId u)\<rparr>)), s, ?v1)"
      using f True by (rule store_call_same)
    have "find (\<lambda>u. uid u = x) (server ?v1) = Some u"
      using f by simp
    from store_call_same [OF this True, of s]
    have 2: "addRemoveProjectUser user_store pid x (Some ''add'') s ?v1
               = (Resolved (UserV (u\<lparr>projectId := sort (projectId u)\<rparr>)), s,
                  ?v1\<lparr>sent := sent ?v1 @ [?get]\<rparr>)" .
    from twice_second [OF 1 2 t] f few show ?thesis
      by (simp add: writes_append writes_Cons writes_read writes_Nil)
  next
    case False
    then have many: "count_list (projectId u) pid \<noteq> 1"
      using once by blast
    show ?thesis
    proof (cases "dryrun s")
      case True
      let ?v1 = "w\<lparr>sent := sent w @ [?get]\<rparr>"
      let ?o = "Resolved (UpdateV ((updatable.truncate u)
                  \<lparr>projectId := sort (rebuilt (projectId u) pid ''add'')\<rparr>))"
      have 1: "addRemoveProjectUser user_store pid x (Some ''add'') s w = (?o, s, ?v1)"
        using f False True by (rule store_call_dry)
      have "find (\<lambda>u. uid u = x) (server ?v1) = Some u"
        using f by simp
      from store_call_dry [OF this False True]
      have 2: "addRemoveProjectUser user_store pid x (Some ''add'') s ?v1
                 = (?o, s, ?v1\<lparr>sent := sent ?v1 @ [?get]\<rparr>)" .
      from twice_second [OF 1 2 t] f many True show ?thesis
        by (simp add: writes_append writes_Cons writes_read writes_Nil)
    next
      case d: False
      let ?rq = "put_user s x ((updatable.truncate u)
                   \<lparr>projectId := sort (rebuilt (projectId u) pid ''add'')\<rparr>)"
      let ?st = "map (store_put ?rq) (server w)"
      let ?v1 = "w\<lparr>server := ?st, sent := sent w @ [?get, ?rq]\<rparr>"
      let ?u = "store_put ?rq u"
      have 1: "addRemoveProjectUser user_store pid x (Some ''add'') s w
                 = (Resolved (Arr (map UserV ?st)), s, ?v1)"
        using f False d by (rule store_call_write) simp
      have x: "uid u = x"
        using f by (auto simp: find_Some_iff)
      have f1: "find (\<lambda>u. uid u = x) (server ?v1) = Some ?u"
        using f by (simp add: find_store_put)
      have p: "projectId ?u = sort (rebuilt (projectId u) pid ''add'')"
        using projectId_store_put [of s u] x by simp
      then have "count_list (projectId ?u) pid = 1"
        by (simp add: count_list_sort count_rebuilt_add)
      then have j: "join (sort (projectId ?u)) = join (sort (rebuilt (projectId ?u) pid ''add''))"
        using redundant_join [of "''add''" "projectId ?u" pid] by simp
      from store_call_same [OF f1 j, of s]
      have 2: "addRemoveProjectUser user_store pid x (Some ''add'') s ?v1
                 = (Resolved (UserV (?u\<lparr>projectId := sort (projectId ?u)\<rparr>)), s,
                    ?v1\<lparr>sent := sent ?v1 @ [?get]\<rparr>)" .
      have "set (projectId ?u) = set (projectId u)"
        using p m by (simp add: set_rebuilt_add)
      with twice_second [OF 1 2 t] f1 many p show ?thesis
        by (simp add: writes_append writes_Cons writes_read writes_Nil is_write_put)
    qed
  qed
qed


text \<open>
  The theorem for C7 on the stored user \<open>u-1\<close>, a member of \<open>p\<close> with the list
  \<open>p, p\<close>: the first call writes the list \<open>p\<close>, the second sends its read only.
\<close>

theorem redundant_add_twice_witness:
  "twice user_store ''p'' ''u-1'' client0 (world0 [ada [''p'', ''p'']]) =
     ((Resolved (Arr [UserV (ada [''p''])]), client0,
       (world0 [ada [''p'']])
         \<lparr>sent := [get_request client0 ''/api/users'',
                   put_user client0 ''u-1'' (updatable.truncate (ada [''p'']))]\<rparr>),
      (Resolved (UserV (ada [''p''])), client0,
       (world0 [ada [''p'']])
         \<lparr>sent := [get_request client0 ''/api/users'',
                   put_user client0 ''u-1'' (updatable.truncate (ada [''p''])),
                   get_request client0 ''/api/users'']\<rparr>)) \<and>
   ''p'' \<in> set (projectId (ada [''p'', ''p''])) \<and>
   1 < count_list (projectId (ada [''p'', ''p''])) ''p'' \<and>
   writes [get_request client0 ''/api/users'',
           put_user client0 ''u-1'' (updatable.truncate (ada [''p''])),
           get_request client0 ''/api/users'']
     = writes [get_request client0 ''/api/users'',
               put_user client0 ''u-1'' (updatable.truncate (ada [''p'']))] \<and>
   (\<exists>u'. find (\<lambda>u. uid u = ''u-1'') [ada [''p'']] = Some u' \<and>
         set (projectId u') = set (projectId (ada [''p'', ''p''])))"
proof -
  have run: "twice user_store ''p'' ''u-1'' client0 (world0 [ada [''p'', ''p'']]) =
     ((Resolved (Arr [UserV (ada [''p''])]), client0,
       (world0 [ada [''p'']])
         \<lparr>sent := [get_request client0 ''/api/users'',
                   put_user client0 ''u-1'' (updatable.truncate (ada [''p'']))]\<rparr>),
      (Resolved (UserV (ada [''p''])), client0,
       (world0 [ada [''p'']])
         \<lparr>sent := [get_request client0 ''/api/users'',
                   put_user client0 ''u-1'' (updatable.truncate (ada [''p''])),
                   get_request client0 ''/api/users'']\<rparr>))"
    by (simp add: twice_def addRemoveProjectUser_def user_store_def world0_def client0_def
          constructor_def ada_def fetch_def get_request_def put_user_def find_by_uid_def
          rebuilt_def default_def settle_def ok_def store_put_def ends_with_def auth_headers_def
          updatable.truncate_def updatable.extend_def send_def user.defs updatable.defs Let_def)
  have f: "find (\<lambda>u. uid u = ''u-1'') (server (world0 [ada [''p'', ''p'']]))
             = Some (ada [''p'', ''p''])"
    by (simp add: world0_def ada_def)
  have m: "''p'' \<in> set (projectId (ada [''p'', ''p'']))"
    by (simp add: ada_def)
  have c: "1 < count_list (projectId (ada [''p'', ''p''])) ''p''"
    by (simp add: ada_def)
  have v: "server ((world0 [ada [''p'']])
             \<lparr>sent := [get_request client0 ''/api/users'',
                       put_user client0 ''u-1'' (updatable.truncate (ada [''p''])),
                       get_request client0 ''/api/users'']\<rparr>) = [ada [''p'']]"
    by (simp add: world0_def)
  from redundant_add_twice [OF f m run] run m c show ?thesis
    by (simp add: v)
qed

text \<open>
  Claim C7 as stated fails on a member whose list holds the project twice. The user
  \<open>u-1\<close> of the store is a member of \<open>p\<close>, with the list \<open>p, p\<close>. The first of the two
  calls sends a PUT with the list \<open>p\<close>, and after the calls the store holds the list
  \<open>p\<close> for the user.
\<close>

theorem redundant_add_twice_counterexample:
  "''p'' \<in> set (projectId (ada [''p'', ''p''])) \<and>
   map (\<lambda>u. (uid u, projectId u)) (server (world0 [ada [''p'', ''p'']]))
     = [(''u-1'', [''p'', ''p''])] \<and>
   map (\<lambda>u. (uid u, projectId u))
     (server (snd (snd (snd (twice user_store ''p'' ''u-1'' client0
                               (world0 [ada [''p'', ''p'']]))))))
     = [(''u-1'', [''p''])] \<and>
   writes (sent (snd (snd (fst (twice user_store ''p'' ''u-1'' client0
                                  (world0 [ada [''p'', ''p'']]))))))
     = [put_user client0 ''u-1'' (updatable.truncate (ada [''p'']))]"
  by (simp add: twice_def addRemoveProjectUser_def user_store_def world0_def client0_def
          constructor_def ada_def fetch_def get_request_def put_user_def find_by_uid_def
          rebuilt_def default_def settle_def ok_def store_put_def ends_with_def auth_headers_def
          updatable.truncate_def updatable.extend_def writes_def is_write_def send_def
          user.defs updatable.defs Let_def)

subsection \<open>The project list of an update payload\<close>

text \<open>
  Claim C8. For every prior project list \<open>ids\<close> and every action, the list that
  \<^verbatim>\<open>addRemoveProjectUser\<close> builds for the payload holds the target project at most
  once. This is shown of the list as built, of the body of every write request the call
  sends, and of the payload a dry run resolves with.
\<close>

theorem addRemoveProjectUser_target_at_most_once:
  assumes "addRemoveProjectUser T pid uid' action s w = (out, s', w')"
  shows "count_list (rebuilt ids pid (default ''add'' action)) pid \<le> 1 \<and>
         (\<exists>new. sent w' = sent w @ new \<and>
            (\<forall>rq \<in> set new. is_write rq \<longrightarrow>
               (\<exists>u2. body rq = Some (UpdateV u2) \<and> count_list (projectId u2) pid \<le> 1))) \<and>
         (dryrun s \<longrightarrow>
            (\<forall>u2. out = Resolved (UpdateV u2) \<longrightarrow> count_list (projectId u2) pid \<le> 1))"
proof (intro conjI)
  show "count_list (rebuilt ids pid (default ''add'' action)) pid \<le> 1"
    using rebuilt_count by simp
  show "\<exists>new. sent w' = sent w @ new \<and>
            (\<forall>rq \<in> set new. is_write rq \<longrightarrow>
               (\<exists>u2. body rq = Some (UpdateV u2) \<and> count_list (projectId u2) pid \<le> 1))"
    using assms unfolding addRemoveProjectUser_def Let_def
    by (auto simp: put_user_def get_request_def is_write_def sorted_rebuilt_count send_def
             split: prod.splits sum.splits option.splits if_splits dest!: fetch_sent)
  show "dryrun s \<longrightarrow>
          (\<forall>u2. out = Resolved (UpdateV u2) \<longrightarrow> count_list (projectId u2) pid \<le> 1)"
    using assms unfolding addRemoveProjectUser_def Let_def
    by (auto simp: sorted_rebuilt_count send_def
             split: prod.splits sum.splits option.splits if_splits)
qed

text \<open>
  The theorem for C8 at a user whose list holds the project twice: the call sends a PUT,
  whose body holds it once.
\<close>

theorem addRemoveProjectUser_target_at_most_once_witness:
  "addRemoveProjectUser user_store ''p'' ''u-1'' (Some ''add'') client0
       (world0 [ada [''q'', ''p'', ''p'']])
     = (Resolved (Arr [UserV (ada [''p'', ''q''])]), client0,
        (world0 [ada [''p'', ''q'']])
          \<lparr>sent := [get_request client0 ''/api/users'',
                    put_user client0 ''u-1'' (updatable.truncate (ada [''p'', ''q'']))]\<rparr>) \<and>
   is_write (put_user client0 ''u-1'' (updatable.truncate (ada [''p'', ''q'']))) \<and>
   count_list (rebuilt [''q'', ''p'', ''p''] ''p'' (default ''add'' (Some ''add''))) ''p'' \<le> 1 \<and>
   (\<exists>new. [get_request client0 ''/api/users'',
            put_user client0 ''u-1'' (updatable.truncate (ada [''p'', ''q'']))] = [] @ new \<and>
      (\<forall>rq \<in> set new. is_write rq \<longrightarrow>
         (\<exists>u2. body rq = Some (UpdateV u2) \<and> count_list (projectId u2) ''p'' \<le> 1)))"
proof -
  have run: "addRemoveProjectUser user_store ''p'' ''u-1'' (Some ''add'') client0
       (world0 [ada [''q'', ''p'', ''p'']])
     = (Resolved (Arr [UserV (ada [''p'', ''q''])]), client0,
        (world0 [ada [''p'', ''q'']])
          \<lparr>sent := [get_request client0 ''/api/users'',
                    put_user client0 ''u-1'' (updatable.truncate (ada [''p'', ''q'']))]\<rparr>)"
    by (simp add: addRemoveProjectUser_def user_store_def world0_def client0_def constructor_def
          ada_def fetch_def get_request_def put_user_def find_by_uid_def rebuilt_def default_def
          settle_def ok_def store_put_def ends_with_def auth_headers_def updatable.truncate_def
          updatable.extend_def user.defs updatable.defs send_def Let_def)
  have w: "is_write (put_user client0 ''u-1'' (updatable.truncate (ada [''p'', ''q''])))"
    by (simp add: is_write_def put_user_def)
  from addRemoveProjectUser_target_at_most_once [OF run, of "[''q'', ''p'', ''p'']"] run w
  show ?thesis by (simp add: world0_def)
qed

subsection \<open>Updating a workspace configuration\<close>

text \<open>
  Claim C9. For every configuration object the call sends one request, a PUT, whose body
  (the object handed to \<^verbatim>\<open>JSON.stringify\<close>) has none of the five server-managed
  properties and has every other property of the input, in the input's order and with
  the input's value.
\<close>

theorem updateWorkspaceConfiguration_body:
  assumes "objects w ref = Some conf"
    and "updateWorkspaceConfiguration T wt ref s w = (out, s', w')"
  shows "\<exists>rq fields. sent w' = sent w @ [rq] \<and> verb rq = PUT \<and> body rq = Some (Obj fields) \<and>
           (\<forall>k \<in> set server_managed. k \<notin> fst ` set fields) \<and>
           fields = filter (\<lambda>kv. fst kv \<notin> set server_managed) conf \<and>
           (\<forall>k. k \<notin> set server_managed \<longrightarrow> map_of fields k = map_of conf k)"
proof -
  let ?fields = "filter (\<lambda>kv. fst kv \<notin> set server_managed) conf"
  let ?rq = "\<lparr>verb = PUT,
              url = api s @ ''/api/workspace-types/'' @ wt @ ''/configurations/''
                    @ js_string (lookup ?fields ''id''),
              headers = auth_headers s, body = Some (Obj ?fields)\<rparr>"
  from assms have "sent w' = sent w @ [?rq]"
    unfolding updateWorkspaceConfiguration_def Let_def stripped send_def
    by (auto split: prod.splits dest!: fetch_sent)
  moreover have "\<forall>k. k \<notin> set server_managed \<longrightarrow> map_of ?fields k = map_of conf k"
    by (induction conf) auto
  ultimately show ?thesis by auto
qed

text \<open>
  The theorem for C9 at the configuration \<open>conf0\<close>, which has three of the five
  server-managed properties: the body keeps \<open>id\<close>, \<open>name\<close> and \<open>rev\<close>.
\<close>

theorem updateWorkspaceConfiguration_body_witness:
  "objects conf_world 0 = Some conf0 \<and>
   (\<exists>rq fields. [put_conf0] = [rq] \<and> verb rq = PUT \<and> body rq = Some (Obj fields) \<and>
      fields = filter (\<lambda>kv. fst kv \<notin> set server_managed) conf0) \<and>
   filter (\<lambda>kv. fst kv \<notin> set server_managed) conf0 = stripped_conf0"
proof -
  have o: "objects conf_world 0 = Some conf0"
    by (simp add: conf_world_def)
  have e: "sent conf_world = []"
    by (simp add: conf_world_def world0_def)
  have f: "filter (\<lambda>kv. fst kv \<notin> set server_managed) conf0 = stripped_conf0"
    by (simp add: conf0_def server_managed_def stripped_conf0_def)
  from updateWorkspaceConfiguration_body [OF o updateWorkspaceConfiguration_run] o f
  show ?thesis by (simp add: e)
qed

text \<open>
  Claim C10. The properties are deleted from the object of the caller: after the call
  the reference holds the object without the five server-managed properties, no other
  object was created or changed, and this is so whatever the service replies and
  whether or not the dry-run flag is set.
\<close>

theorem updateWorkspaceConfiguration_in_place:
  assumes "objects w ref = Some conf"
    and "updateWorkspaceConfiguration T wt ref s w = (out, s', w')"
  shows "objects w' = (objects w)(ref \<mapsto> filter (\<lambda>kv. fst kv \<notin> set server_managed) conf) \<and>
         (\<forall>k \<in> set server_managed. \<forall>fields.
            objects w' ref = Some fields \<longrightarrow> k \<notin> fst ` set fields) \<and>
         dom (objects w') = dom (objects w)"
proof -
  from assms
  have o: "objects w' = (objects w)(ref \<mapsto> filter (\<lambda>kv. fst kv \<notin> set server_managed) conf)"
    unfolding updateWorkspaceConfiguration_def Let_def stripped send_def
    by (auto split: prod.splits dest!: fetch_objects)
  moreover from assms(1)
  have "dom ((objects w)(ref \<mapsto> filter (\<lambda>kv. fst kv \<notin> set server_managed) conf))
          = dom (objects w)"
    by auto
  ultimately show ?thesis by auto
qed

text \<open>
  The theorem for C10 at the configuration \<open>conf0\<close>: the caller's object at
  reference 0 is \<open>conf0\<close> before the call and the stripped object after it.
\<close>

theorem updateWorkspaceConfiguration_in_place_witness:
  "objects conf_world 0 = Some conf0 \<and>
   objects (snd (snd (updateWorkspaceConfiguration conf_service ''wt-1'' 0
                        (client0\<lparr>dryrun := True\<rparr>) conf_world))) 0
     = Some stripped_conf0 \<and>
   stripped_conf0 \<noteq> conf0"
proof -
  have o: "objects conf_world 0 = Some conf0"
    by (simp add: conf_world_def)
  have f: "filter (\<lambda>kv. fst kv \<notin> set server_managed) conf0 = stripped_conf0"
    by (simp add: conf0_def server_managed_def stripped_conf0_def)
  have n: "stripped_conf0 \<noteq> conf0"
    by (simp add: conf0_def stripped_conf0_def)
  from updateWorkspaceConfiguration_in_place [OF o updateWorkspaceConfiguration_run] o n
  show ?thesis by (simp add: f updateWorkspaceConfiguration_run)
qed

end
